theory Spec2Isabelle
  imports Complex_Main "HOL-Library.Char_ord" "HOL-Library.List_Lexorder"
begin

section \<open>statSTR: per-locus statistics of tandem-repeat calls\<close>

text \<open>
  A shallow embedding of \<^verbatim>\<open>trtools/statSTR/statSTR.py\<close>. The functions of the file are
  translated one by one and keep their names. What the file imports from the rest of the
  package (the harmonised record of \<^verbatim>\<open>tr_harmonizer\<close>, the statistics of
  \<^verbatim>\<open>utils\<close>) enters as a record of functions; the file system and the VCF reader enter
  as a record describing the world \<^verbatim>\<open>main\<close> runs in.
\<close>

subsection \<open>Python values: errors, floats, text\<close>

datatype py_error = ValueError | IndexError | TypeError | FileNotFoundError | UnboundLocalError

text \<open>
  A Python float is NaN, an infinity or a finite value; a finite value is modelled by the
  rational number it denotes (every double is one; negative zero is not told apart from
  zero). \<^verbatim>\<open>np.isnan\<close> is true of NaN only.
\<close>

datatype pyfloat = NaN | PInf | NInf | Finite rat

fun isnan :: "pyfloat \<Rightarrow> bool" where
  "isnan NaN = True"
| "isnan _ = False"

definition TAB :: char where
  "TAB = CHR 0x09"

definition NEWLINE :: char where
  "NEWLINE = CHR 0x0A"

definition digit_char :: "nat \<Rightarrow> char" where
  "digit_char n = ''0123456789'' ! n"

text \<open>\<^verbatim>\<open>str(n)\<close> of a non-negative integer: its decimal digits.\<close>

fun str_nat :: "nat \<Rightarrow> string" where
  "str_nat n = (if n < 10 then [digit_char n] else str_nat (n div 10) @ [digit_char (n mod 10)])"

declare str_nat.simps [simp del]

definition str_int :: "int \<Rightarrow> string" where
  "str_int i = (if i < 0 then CHR ''-'' # str_nat (nat (- i)) else str_nat (nat i))"

text \<open>\<^verbatim>\<open>sep.join(xs)\<close>.\<close>

fun join :: "string \<Rightarrow> string list \<Rightarrow> string" where
  "join sep [] = []"
| "join sep [x] = x"
| "join sep (x # y # ys) = x @ sep @ join sep (y # ys)"

text \<open>\<^verbatim>\<open>s.split(c)\<close> for a one-character separator: the empty string gives one empty piece.\<close>

fun split_on :: "char \<Rightarrow> string \<Rightarrow> string list" where
  "split_on c [] = [[]]"
| "split_on c (x # xs) =
     (if x = c then [] # split_on c xs
      else (case split_on c xs of [] \<Rightarrow> [[x]] | w # ws \<Rightarrow> (x # w) # ws))"

text \<open>\<^verbatim>\<open>s.strip()\<close> on ASCII text: blanks, tabs, line ends, vertical tab and form feed go.\<close>

definition is_space :: "char \<Rightarrow> bool" where
  "is_space c = (c \<in> set [CHR '' '', CHR 0x09, CHR 0x0A, CHR 0x0B, CHR 0x0C, CHR 0x0D])"

definition strip :: "string \<Rightarrow> string" where
  "strip s = rev (dropWhile is_space (rev (dropWhile is_space s)))"

subsection \<open>Float formatting\<close>

text \<open>
  Both float conversions the file uses round the exact value of the double correctly, ties
  to the even digit.
\<close>

definition round_half_even :: "rat \<Rightarrow> int" where
  "round_half_even q =
     (let f = \<lfloor>q\<rfloor>; r = q - of_int f
      in if r < 1 / 2 then f else if 1 / 2 < r then f + 1 else if even f then f else f + 1)"

definition zero_pad :: "nat \<Rightarrow> string \<Rightarrow> string" where
  "zero_pad w s = replicate (w - length s) CHR ''0'' @ s"

text \<open>\<^verbatim>\<open>"%.<d>f" % x\<close> for a finite x: fixed point with d digits after the point.\<close>

definition format_f :: "nat \<Rightarrow> rat \<Rightarrow> string" where
  "format_f d x =
     (let s = nat (round_half_even (\<bar>x\<bar> * 10 ^ d)); ip = s div 10 ^ d; fp = s mod 10 ^ d
      in (if x < 0 then ''-'' else '''') @ str_nat ip
         @ (if d = 0 then '''' else CHR ''.'' # zero_pad d (str_nat fp)))"

fun percent_f :: "nat \<Rightarrow> pyfloat \<Rightarrow> string" where
  "percent_f d NaN = ''nan''"
| "percent_f d PInf = ''inf''"
| "percent_f d NInf = ''-inf''"
| "percent_f d (Finite x) = format_f d x"

text \<open>
  The decimal exponent of a positive value: the e with \<open>10^e \<le> a < 10^(e+1)\<close>, found by
  dividing down from above 10 or multiplying up from below 1.
\<close>

function exp_up :: "rat \<Rightarrow> nat" where
  "exp_up a = (if a < 10 then 0 else Suc (exp_up (a / 10)))"
  by pat_completeness auto
termination
proof (relation "measure (\<lambda>a. nat \<lfloor>a\<rfloor>)")
  show "wf (measure (\<lambda>a::rat. nat \<lfloor>a\<rfloor>))" by simp
next
  fix a :: rat
  assume "\<not> a < 10"
  then have ten: "10 \<le> a" by simp
  have "of_int \<lfloor>a / 10\<rfloor> \<le> a / 10" by (rule of_int_floor_le)
  with ten have "of_int (\<lfloor>a / 10\<rfloor> + 1) \<le> a" by simp
  then have "\<lfloor>a / 10\<rfloor> + 1 \<le> \<lfloor>a\<rfloor>" by (simp only: le_floor_iff)
  moreover from ten have "0 < \<lfloor>a\<rfloor>" by (simp add: less_floor_iff)
  ultimately have "\<lfloor>a / 10\<rfloor> < \<lfloor>a\<rfloor>" and "0 < \<lfloor>a\<rfloor>" by simp_all
  then show "(a / 10, a) \<in> measure (\<lambda>a. nat \<lfloor>a\<rfloor>)" by simp
qed

function exp_down :: "rat \<Rightarrow> nat" where
  "exp_down a = (if 1 \<le> a \<or> a \<le> 0 then 0 else Suc (exp_down (a * 10)))"
  by pat_completeness auto
termination
proof (relation "measure (\<lambda>a. nat \<lceil>1 / a\<rceil>)")
  show "wf (measure (\<lambda>a::rat. nat \<lceil>1 / a\<rceil>))" by simp
next
  fix a :: rat
  assume "\<not> (1 \<le> a \<or> a \<le> 0)"
  then have a: "0 < a" "a < 1" by simp_all
  define c where "c = \<lceil>1 / a\<rceil>"
  from a have "1 < 1 / a" by simp
  then have two: "2 \<le> c" unfolding c_def by linarith
  have "1 / a \<le> of_int c" unfolding c_def by (rule le_of_int_ceiling)
  then have "1 / (a * 10) \<le> of_int c / 10" using a by (simp add: divide_simps)
  also have "\<dots> \<le> of_int (c - 1)" using two by simp
  finally have "\<lceil>1 / (a * 10)\<rceil> \<le> c - 1" by (simp only: ceiling_le_iff)
  with two have "nat \<lceil>1 / (a * 10)\<rceil> < nat c" by linarith
  then show "(a * 10, a) \<in> measure (\<lambda>a. nat \<lceil>1 / a\<rceil>)" by (simp only: c_def in_measure)
qed

declare exp_up.simps [simp del] exp_down.simps [simp del]

definition decimal_exponent :: "rat \<Rightarrow> int" where
  "decimal_exponent a = (if 1 \<le> a then int (exp_up a) else - int (exp_down a))"

definition scale10 :: "rat \<Rightarrow> int \<Rightarrow> rat" where
  "scale10 a k = (if 0 \<le> k then a * 10 ^ nat k else a / 10 ^ nat (- k))"

definition strip_zeros :: "string \<Rightarrow> string" where
  "strip_zeros s = rev (dropWhile (\<lambda>c. c = CHR ''0'') (rev s))"

text \<open>
  The digits of a non-negative value correctly rounded to p significant digits, trailing
  zeros dropped, and the position of the decimal point relative to them: zero is the
  digit 0 with the point after it.
\<close>

definition sig_digits :: "nat \<Rightarrow> rat \<Rightarrow> string \<times> int" where
  "sig_digits p a =
     (if a = 0 then (''0'', 1)
      else let e = decimal_exponent a;
               d = nat (round_half_even (scale10 a (int p - 1 - e)))
           in (strip_zeros (str_nat d), if d = 10 ^ p then e + 2 else e + 1))"

definition exponent_str :: "int \<Rightarrow> string" where
  "exponent_str e = (if e < 0 then CHR ''-'' else CHR ''+'') # zero_pad 2 (str_nat (nat \<bar>e\<bar>))"

text \<open>
  \<^verbatim>\<open>"{:.<prec>}".format(x)\<close> for a finite x. The specification has a precision and no
  presentation type: the value is rounded to \<open>prec\<close> significant digits (0 counts as 1)
  and written in scientific notation when its exponent is below -4 or at least
  \<open>prec - 1\<close>, in positional notation with at least one digit after the point otherwise.
\<close>

definition format_general :: "nat \<Rightarrow> rat \<Rightarrow> string" where
  "format_general prec x =
     (let p = max 1 prec;
          (ds, decpt) = sig_digits p \<bar>x\<bar>;
          sgn = (if x < 0 then ''-'' else '''')
      in if decpt \<le> - 4 \<or> int p - 1 < decpt
         then sgn @ [hd ds] @ (if tl ds = [] then '''' else CHR ''.'' # tl ds)
              @ CHR ''e'' # exponent_str (decpt - 1)
         else if decpt \<le> 0
         then sgn @ ''0.'' @ replicate (nat (- decpt)) CHR ''0'' @ ds
         else sgn @ take (nat decpt) (ds @ replicate (nat decpt) CHR ''0'') @ CHR ''.''
              # (if drop (nat decpt) ds = [] then ''0'' else drop (nat decpt) ds))"

fun float_format :: "nat \<Rightarrow> pyfloat \<Rightarrow> string" where
  "float_format prec NaN = ''nan''"
| "float_format prec PInf = ''inf''"
| "float_format prec NInf = ''-inf''"
| "float_format prec (Finite x) = format_general prec x"

text \<open>
  A format string of the shape \<^verbatim>\<open>prefix + "{:." + str(precision) + "}"\<close>, kept as its
  two parts. \<^verbatim>\<open>.format(val)\<close> raises ValueError when the precision is negative (the
  specification does not parse) or exceeds the C int range.
\<close>

type_synonym format_string = "string \<times> int"

definition str_format :: "format_string \<Rightarrow> pyfloat \<Rightarrow> py_error + string" where
  "str_format fs val =
     (case fs of (prefix, p) \<Rightarrow>
        if p < 0 \<or> 2147483647 < p then Inl ValueError
        else Inr (prefix @ float_format (nat p) val))"

definition format_nan_precision :: "format_string \<Rightarrow> pyfloat \<Rightarrow> py_error + string" where
  "format_nan_precision precision_format val =
     (if isnan val then Inr (TAB # ''nan'') else str_format precision_format val)"

subsection \<open>Reading a number back from its text\<close>


definition digit_of :: "char \<Rightarrow> nat" where
  "digit_of c = of_char c - 48"

definition nat_of_digits :: "string \<Rightarrow> nat" where
  "nat_of_digits s = foldl (\<lambda>n c. 10 * n + digit_of c) 0 s"





subsection \<open>Dictionaries, allele distributions and the harmonised record\<close>

text \<open>
  A dictionary is an association list with distinct keys, in insertion order.
\<close>

type_synonym ('k, 'v) dict = "('k \<times> 'v) list"

definition dict_keys :: "('k, 'v) dict \<Rightarrow> 'k list" where
  "dict_keys d = map fst d"

definition dict_values :: "('k, 'v) dict \<Rightarrow> 'v list" where
  "dict_values d = map snd d"

definition dict_get :: "('k, 'v) dict \<Rightarrow> 'k \<Rightarrow> 'v \<Rightarrow> 'v" where
  "dict_get d k dflt = (case map_of d k of None \<Rightarrow> dflt | Some v \<Rightarrow> v)"

text \<open>
  An allele is told by its length in repeat units (a float) or by its sequence (a string).
  One distribution holds keys of one kind only; so does one table of genotype counts,
  whose keys are tuples of alleles.
\<close>

datatype allele = Len rat | Seq string

datatype 'v adict = ByLength "(rat, 'v) dict" | BySeq "(string, 'v) dict"

datatype gcounts = GByLength "(rat list, nat) dict" | GBySeq "(string list, nat) dict"

fun adict_keys :: "'v adict \<Rightarrow> allele list" where
  "adict_keys (ByLength d) = map Len (dict_keys d)"
| "adict_keys (BySeq d) = map Seq (dict_keys d)"

fun adict_get :: "'v adict \<Rightarrow> allele \<Rightarrow> 'v \<Rightarrow> 'v" where
  "adict_get (ByLength d) (Len l) dflt = dict_get d l dflt"
| "adict_get (BySeq d) (Seq q) dflt = dict_get d q dflt"
| "adict_get _ _ dflt = dflt"

fun gcounts_values :: "gcounts \<Rightarrow> nat list" where
  "gcounts_values (GByLength d) = dict_values d"
| "gcounts_values (GBySeq d) = dict_values d"

text \<open>
  A sample list is a list of sample names, or \<^verbatim>\<open>None\<close> for all samples.
\<close>

type_synonym samplelist = "string list option"

text \<open>
  The harmonised record \<^verbatim>\<open>trh.TRRecord\<close> as statSTR sees it: the fields it reads
  (\<^verbatim>\<open>vcfrecord.CHROM\<close>, \<^verbatim>\<open>vcfrecord.POS\<close>, \<^verbatim>\<open>ref_allele\<close>, \<^verbatim>\<open>motif\<close>) and the
  methods it calls. An omitted \<^verbatim>\<open>samplelist\<close> argument is \<^verbatim>\<open>None\<close>; the
  \<^verbatim>\<open>uselength\<close> argument of \<^verbatim>\<open>GetGenotypeCounts\<close> is optional, since GetNumSamples
  leaves it out.
\<close>

record TRRecord =
  CHROM :: string
  POS :: int
  ref_allele :: string
  motif :: string
  GetMaxAllele :: "samplelist \<Rightarrow> pyfloat"
  GetAlleleCounts :: "bool \<Rightarrow> samplelist \<Rightarrow> nat adict"
  GetAlleleFreqs :: "bool \<Rightarrow> samplelist \<Rightarrow> pyfloat adict"
  GetGenotypeCounts :: "samplelist \<Rightarrow> bool option \<Rightarrow> gcounts"

text \<open>
  What statSTR calls in \<^verbatim>\<open>trtools.utils.utils\<close>, and Python's \<^verbatim>\<open>str\<close> of a float
  (the shortest text that reads back as the same double), which renders an allele length
  under \<^verbatim>\<open>%s\<close>.
\<close>

record Library =
  utils_GetHardyWeinbergBinomialTest :: "pyfloat adict \<Rightarrow> gcounts \<Rightarrow> pyfloat"
  utils_GetHeterozygosity :: "pyfloat adict \<Rightarrow> pyfloat"
  utils_GetEntropy :: "pyfloat adict \<Rightarrow> pyfloat"
  utils_GetMean :: "pyfloat adict \<Rightarrow> pyfloat"
  utils_GetMode :: "pyfloat adict \<Rightarrow> pyfloat"
  utils_GetVariance :: "pyfloat adict \<Rightarrow> pyfloat"
  str_float :: "rat \<Rightarrow> string"

subsection \<open>The statistics of a locus\<close>

definition MAXPLOTS :: nat where
  "MAXPLOTS = 10"

definition GetHeader :: "string \<Rightarrow> string list \<Rightarrow> string list" where
  "GetHeader header sample_prefixes =
     (if length sample_prefixes = 0 then [header]
      else map (\<lambda>sp. header @ ''-'' @ sp) sample_prefixes)"

definition GetThresh :: "TRRecord \<Rightarrow> samplelist list \<Rightarrow> pyfloat list" where
  "GetThresh trrecord samplelists =
     (if length samplelists = 0 then [GetMaxAllele trrecord None]
      else map (\<lambda>sl. GetMaxAllele trrecord sl) samplelists)"

text \<open>
  Every other statistic starts with
  \<^verbatim>\<open>if len(samplelists) == 0: samplelists.append(None)\<close>. The list is the caller's own
  object, so the append is seen by the caller: each of these functions returns the list
  as it leaves it, next to its result.
\<close>

definition append_default :: "samplelist list \<Rightarrow> samplelist list" where
  "append_default samplelists =
     (if length samplelists = 0 then samplelists @ [None] else samplelists)"

text \<open>One group's table: \<^verbatim>\<open>"."\<close> without keys, else the sorted keys with their values.\<close>

definition count_table :: "('k \<Rightarrow> string) \<Rightarrow> ('k::linorder, nat) dict \<Rightarrow> string" where
  "count_table str allele_counts =
     (if length (dict_keys allele_counts) = 0 then ''.''
      else join '','' (map (\<lambda>a. str a @ '':'' @ str_nat (dict_get allele_counts a 0))
                           (sort (dict_keys allele_counts))))"

definition freq_table :: "('k \<Rightarrow> string) \<Rightarrow> ('k::linorder, pyfloat) dict \<Rightarrow> string" where
  "freq_table str allele_freqs =
     (if length (dict_keys allele_freqs) = 0 then ''.''
      else join '','' (map (\<lambda>a. str a @ '':'' @ percent_f 3 (dict_get allele_freqs a (Finite 0)))
                           (sort (dict_keys allele_freqs))))"

definition GetAFreq ::
  "Library \<Rightarrow> TRRecord \<Rightarrow> samplelist list \<Rightarrow> bool \<Rightarrow> bool \<Rightarrow> samplelist list \<times> string list" where
  "GetAFreq lib trrecord samplelists count uselength =
     (let samplelists = append_default samplelists
      in (samplelists,
          map (\<lambda>sl.
                 if count
                 then (case GetAlleleCounts trrecord uselength sl of
                         ByLength d \<Rightarrow> count_table (str_float lib) d
                       | BySeq d \<Rightarrow> count_table (\<lambda>a. a) d)
                 else (case GetAlleleFreqs trrecord uselength sl of
                         ByLength d \<Rightarrow> freq_table (str_float lib) d
                       | BySeq d \<Rightarrow> freq_table (\<lambda>a. a) d))
              samplelists))"

definition GetHWEP ::
  "Library \<Rightarrow> TRRecord \<Rightarrow> samplelist list \<Rightarrow> bool \<Rightarrow> samplelist list \<times> pyfloat list" where
  "GetHWEP lib trrecord samplelists uselength =
     (let samplelists = append_default samplelists
      in (samplelists,
          map (\<lambda>sl. utils_GetHardyWeinbergBinomialTest lib
                       (GetAlleleFreqs trrecord uselength sl)
                       (GetGenotypeCounts trrecord sl (Some uselength)))
              samplelists))"

definition GetHet ::
  "Library \<Rightarrow> TRRecord \<Rightarrow> samplelist list \<Rightarrow> bool \<Rightarrow> samplelist list \<times> pyfloat list" where
  "GetHet lib trrecord samplelists uselength =
     (let samplelists = append_default samplelists
      in (samplelists,
          map (\<lambda>sl. utils_GetHeterozygosity lib (GetAlleleFreqs trrecord uselength sl))
              samplelists))"

definition GetEntropy ::
  "Library \<Rightarrow> TRRecord \<Rightarrow> samplelist list \<Rightarrow> bool \<Rightarrow> samplelist list \<times> pyfloat list" where
  "GetEntropy lib trrecord samplelists uselength =
     (let samplelists = append_default samplelists
      in (samplelists,
          map (\<lambda>sl. utils_GetEntropy lib (GetAlleleFreqs trrecord uselength sl))
              samplelists))"

definition GetMean ::
  "Library \<Rightarrow> TRRecord \<Rightarrow> samplelist list \<Rightarrow> bool \<Rightarrow> samplelist list \<times> pyfloat list" where
  "GetMean lib trrecord samplelists uselength =
     (let samplelists = append_default samplelists
      in (samplelists,
          map (\<lambda>sl. utils_GetMean lib (GetAlleleFreqs trrecord True sl)) samplelists))"

definition GetMode ::
  "Library \<Rightarrow> TRRecord \<Rightarrow> samplelist list \<Rightarrow> bool \<Rightarrow> samplelist list \<times> pyfloat list" where
  "GetMode lib trrecord samplelists uselength =
     (let samplelists = append_default samplelists
      in (samplelists,
          map (\<lambda>sl. utils_GetMode lib (GetAlleleFreqs trrecord True sl)) samplelists))"

definition GetVariance ::
  "Library \<Rightarrow> TRRecord \<Rightarrow> samplelist list \<Rightarrow> bool \<Rightarrow> samplelist list \<times> pyfloat list" where
  "GetVariance lib trrecord samplelists uselength =
     (let samplelists = append_default samplelists
      in (samplelists,
          map (\<lambda>sl. utils_GetVariance lib (GetAlleleFreqs trrecord True sl)) samplelists))"

definition GetNumSamples :: "TRRecord \<Rightarrow> samplelist list \<Rightarrow> samplelist list \<times> nat list" where
  "GetNumSamples trrecord samplelists =
     (let samplelists = append_default samplelists
      in (samplelists,
          map (\<lambda>sl. sum_list (gcounts_values (GetGenotypeCounts trrecord sl None)))
              samplelists))"

subsection \<open>Plotting the allele frequencies of a locus\<close>

text \<open>
  The renderer (matplotlib) is outside; a plot is what PlotAlleleFreqs hands to it: the file
  name, the bins and, for each sample list, the legend label, the bar positions, the bar
  heights and the bar width. The function raises where the Python does: \<^verbatim>\<open>min\<close> of an
  empty set of alleles is a ValueError, arithmetic on a sequence allele a TypeError, a
  missing legend label an IndexError.
\<close>

record plot =
  fname :: string
  bins :: "rat list"
  bars :: "(string \<times> rat list \<times> pyfloat list \<times> rat) list"
  xlabel :: string

fun allele_lengths :: "allele list \<Rightarrow> rat list" where
  "allele_lengths [] = []"
| "allele_lengths (Len l # as) = l # allele_lengths as"
| "allele_lengths (Seq q # as) = allele_lengths as"

text \<open>\<^verbatim>\<open>np.arange(a, b, 1)\<close>: a, a + 1, ... below b.\<close>

definition arange :: "rat \<Rightarrow> rat \<Rightarrow> rat list" where
  "arange a b = map (\<lambda>k. a + of_nat k) [0 ..< nat \<lceil>b - a\<rceil>]"

definition PlotAlleleFreqs ::
  "TRRecord \<Rightarrow> string \<Rightarrow> samplelist list \<Rightarrow> string list \<Rightarrow> py_error + plot" where
  "PlotAlleleFreqs trrecord outprefix samplelists0 sampleprefixes0 =
     (let (samplelists, sampleprefixes) =
            (if samplelists0 = [] then ([None], [''sample''])
             else (samplelists0, sampleprefixes0));
          allele_freqs_list = map (\<lambda>sl. GetAlleleFreqs trrecord True sl) samplelists;
          allele_set = concat (map adict_keys allele_freqs_list);
          lens = allele_lengths allele_set
      in if allele_set = [] then Inl ValueError
         else if length lens < length allele_set then Inl TypeError
         else
           let min_allele = fold min (tl lens) (hd lens) - 2;
               max_allele = fold max (tl lens) (hd lens) + 2;
               bins = arange min_allele max_allele;
               w = 1 / (of_nat (length samplelists) + 3 / 10)
           in if length sampleprefixes < length samplelists then Inl IndexError
              else Inr \<lparr>fname = outprefix @ ''-'' @ CHROM trrecord @ ''-''
                                 @ str_int (POS trrecord) @ ''.pdf'',
                        bins = bins,
                        bars = map (\<lambda>i. (sampleprefixes ! i,
                                          map (\<lambda>item. item + of_nat i * w) bins,
                                          map (\<lambda>item. adict_get (allele_freqs_list ! i)
                                                         (Len item) (Finite 0)) bins,
                                          w * (11 / 10)))
                                   [0 ..< length samplelists],
                        xlabel = ''TR allele (num. '' @ motif trrecord @ '' rpts)''\<rparr>)"

subsection \<open>The command line, the world and a run of main\<close>

record Args =
  vcf :: string
  out :: string
  vcftype :: string
  precision :: int
  samples :: "string option"
  sample_prefixes :: "string option"
  region :: "string option"
  thresh :: bool
  afreq :: bool
  acount :: bool
  hwep :: bool
  het :: bool
  entropy :: bool
  mean :: bool
  mode :: bool
  var :: bool
  numcalled :: bool
  use_length :: bool
  plot_afreq :: bool

text \<open>Truth of an optional string: \<^verbatim>\<open>None\<close> and the empty string are false.\<close>

fun truthy :: "string option \<Rightarrow> bool" where
  "truthy None = False"
| "truthy (Some s) = (s \<noteq> [])"

text \<open>
  The reader of the input file gives the records of the whole file, or of a region; the
  records are taken as HarmonizeRecord returns them (the VCF type named or inferred is
  taken to be valid). The world answers what main asks the file system.
\<close>

record reader =
  all_records :: "TRRecord list"
  fetch :: "string \<Rightarrow> TRRecord list"

record World =
  path_exists :: "string \<Rightarrow> bool"
  dirname_abspath :: "string \<Rightarrow> string"
  path_isdir :: "string \<Rightarrow> bool"
  readlines :: "string \<Rightarrow> string list option"
  LoadSingleReader :: "string \<Rightarrow> bool \<Rightarrow> reader option"

text \<open>
  What a run leaves behind: how it ended, the messages of \<^verbatim>\<open>common.WARNING\<close> and
  \<^verbatim>\<open>common.MSG\<close>, the header line written to the output (\<^verbatim>\<open>None\<close> when nothing was
  written), the strings written for each record processed, in order, and the plots saved.
  Progress messages, which report running time, are left out.
\<close>

datatype outcome = Returned int | Raised py_error

record result =
  status :: outcome
  messages :: "string list"
  header_line :: "string option"
  rows :: "string list list"
  plots :: "plot list"

definition out_text :: "result \<Rightarrow> string" where
  "out_text res = (case header_line res of None \<Rightarrow> [] | Some h \<Rightarrow> h) @ concat (concat (rows res))"

definition failed :: "string list \<Rightarrow> result" where
  "failed msgs = \<lparr>status = Returned 1, messages = msgs, header_line = None, rows = [], plots = []\<rparr>"

definition header_of :: "Args \<Rightarrow> string list \<Rightarrow> string list" where
  "header_of args prefixes =
     [''chrom'', ''start'', ''end'']
     @ (if thresh args then GetHeader ''thresh'' prefixes else [])
     @ (if afreq args then GetHeader ''afreq'' prefixes else [])
     @ (if acount args then GetHeader ''acount'' prefixes else [])
     @ (if hwep args then GetHeader ''hwep'' prefixes else [])
     @ (if het args then GetHeader ''het'' prefixes else [])
     @ (if entropy args then GetHeader ''entropy'' prefixes else [])
     @ (if mean args then GetHeader ''mean'' prefixes else [])
     @ (if mode args then GetHeader ''mode'' prefixes else [])
     @ (if var args then GetHeader ''var'' prefixes else [])
     @ (if numcalled args then GetHeader ''numcalled'' prefixes else [])"

definition precision_format :: "Args \<Rightarrow> format_string" where
  "precision_format args = ([TAB], precision args)"

text \<open>
  Writing one block of a row: \<^verbatim>\<open>for val in ...: outf.write(...)\<close>. The values are all
  computed before the first write; a float that fails to format stops the writes, and
  what was written before it stays written.
\<close>

fun write_floats :: "format_string \<Rightarrow> pyfloat list \<Rightarrow> string list \<times> py_error option" where
  "write_floats pf [] = ([], None)"
| "write_floats pf (val # vals) =
     (case format_nan_precision pf val of
        Inl e \<Rightarrow> ([], Some e)
      | Inr s \<Rightarrow> (case write_floats pf vals of (ws, err) \<Rightarrow> (s # ws, err)))"

definition write_strs :: "string list \<Rightarrow> string list \<times> py_error option" where
  "write_strs vals = (map (\<lambda>val. TAB # val) vals, None)"

text \<open>
  The state while a row is written: the caller's sample lists, the strings written so far
  and the exception raised, if any. A block runs when its flag is set and nothing has been
  raised.
\<close>

type_synonym row_state = "samplelist list \<times> string list \<times> py_error option"

fun run_block ::
  "bool \<Rightarrow> (samplelist list \<Rightarrow> samplelist list \<times> string list \<times> py_error option)
   \<Rightarrow> row_state \<Rightarrow> row_state" where
  "run_block flag blk (sls, written, Some e) = (sls, written, Some e)"
| "run_block flag blk (sls, written, None) =
     (if flag then (case blk sls of (sls', ws, err) \<Rightarrow> (sls', written @ ws, err))
      else (sls, written, None))"

definition float_block ::
  "format_string \<Rightarrow> samplelist list \<times> pyfloat list \<Rightarrow> samplelist list \<times> string list \<times> py_error option" where
  "float_block pf res = (case res of (sls, vals) \<Rightarrow> (sls, write_floats pf vals))"

definition str_block ::
  "samplelist list \<times> string list \<Rightarrow> samplelist list \<times> string list \<times> py_error option" where
  "str_block res = (case res of (sls, vals) \<Rightarrow> (sls, write_strs vals))"

definition coordinates :: "TRRecord \<Rightarrow> string" where
  "coordinates trrecord =
     CHROM trrecord @ [TAB] @ str_int (POS trrecord) @ [TAB]
     @ str_int (POS trrecord + int (length (ref_allele trrecord)))"

definition write_row :: "Args \<Rightarrow> Library \<Rightarrow> TRRecord \<Rightarrow> samplelist list \<Rightarrow> row_state" where
  "write_row args lib trrecord sample_lists =
     (let pf = precision_format args;
          st = (sample_lists, [coordinates trrecord], None);
          st = run_block (thresh args)
                 (\<lambda>sls. float_block pf (sls, GetThresh trrecord sls)) st;
          st = run_block (afreq args)
                 (\<lambda>sls. str_block (GetAFreq lib trrecord sls False (use_length args))) st;
          st = run_block (acount args)
                 (\<lambda>sls. str_block (GetAFreq lib trrecord sls True (use_length args))) st;
          st = run_block (hwep args)
                 (\<lambda>sls. float_block pf (GetHWEP lib trrecord sls (use_length args))) st;
          st = run_block (het args)
                 (\<lambda>sls. float_block pf (GetHet lib trrecord sls (use_length args))) st;
          st = run_block (entropy args)
                 (\<lambda>sls. float_block pf (GetEntropy lib trrecord sls (use_length args))) st;
          st = run_block (mean args)
                 (\<lambda>sls. float_block pf (GetMean lib trrecord sls True)) st;
          st = run_block (mode args)
                 (\<lambda>sls. float_block pf (GetMode lib trrecord sls True)) st;
          st = run_block (var args)
                 (\<lambda>sls. float_block pf (GetVariance lib trrecord sls True)) st;
          st = run_block (numcalled args)
                 (\<lambda>sls. str_block (case GetNumSamples trrecord sls of
                                       (sls', vals) \<Rightarrow> (sls', map str_nat vals))) st
      in run_block True (\<lambda>sls. (sls, [[NEWLINE]], None)) st)"

text \<open>
  The loop over the records. Its state is main's: the sample lists, the number of loci
  plotted, the rows written and the plots saved. An exception ends the loop; nothing in
  main catches one.
\<close>

record loop_state =
  sample_lists :: "samplelist list"
  num_plotted :: nat
  rows_written :: "string list list"
  plots_saved :: "plot list"

fun process_records ::
  "Args \<Rightarrow> Library \<Rightarrow> string list \<Rightarrow> TRRecord list \<Rightarrow> loop_state \<Rightarrow> loop_state \<times> py_error option" where
  "process_records args lib prefixes [] st = (st, None)"
| "process_records args lib prefixes (trrecord # rest) st =
     (case (if plot_afreq args \<and> num_plotted st \<le> MAXPLOTS
            then (case PlotAlleleFreqs trrecord (out args) (sample_lists st) prefixes of
                    Inl e \<Rightarrow> Inl e
                  | Inr p \<Rightarrow> Inr (st\<lparr>plots_saved := plots_saved st @ [p],
                                       num_plotted := num_plotted st + 1\<rparr>))
            else Inr st) of
        Inl e \<Rightarrow> (st, Some e)
      | Inr st1 \<Rightarrow>
          (case write_row args lib trrecord (sample_lists st1) of
             (sls, written, err) \<Rightarrow>
               (let st2 = st1\<lparr>sample_lists := sls, rows_written := rows_written st1 @ [written]\<rparr>
                in case err of
                     Some e \<Rightarrow> (st2, Some e)
                   | None \<Rightarrow> process_records args lib prefixes rest st2)))"

text \<open>
  Loading the sample lists: the names and labels split at commas, the default labels
  1, 2, ..., the length check, then one file read per name. The \<^verbatim>\<open>return 1\<close> for plots
  on standard output sits inside the \<^verbatim>\<open>try\<close> before \<^verbatim>\<open>outf\<close> is bound, and the
  \<^verbatim>\<open>finally\<close> clause reads \<^verbatim>\<open>outf\<close>: that run ends in UnboundLocalError.
\<close>

fun read_sample_files :: "World \<Rightarrow> string list \<Rightarrow> py_error + samplelist list" where
  "read_sample_files world [] = Inr []"
| "read_sample_files world (sf # sfiles) =
     (case readlines world sf of
        None \<Rightarrow> Inl FileNotFoundError
      | Some lines \<Rightarrow>
          (case read_sample_files world sfiles of
             Inl e \<Rightarrow> Inl e
           | Inr sls \<Rightarrow> Inr (Some (map strip lines) # sls)))"

definition sfiles_of :: "Args \<Rightarrow> string list" where
  "sfiles_of args = (if truthy (samples args) then split_on CHR '','' (the (samples args)) else [])"

definition prefixes_of :: "Args \<Rightarrow> string list" where
  "prefixes_of args =
     (if truthy (samples args)
      then (if truthy (sample_prefixes args)
            then split_on CHR '','' (the (sample_prefixes args))
            else map (\<lambda>item. str_nat item) [1 ..< length (sfiles_of args) + 1])
      else [])"

definition records_of :: "Args \<Rightarrow> reader \<Rightarrow> TRRecord list" where
  "records_of args invcf =
     (if truthy (region args) then fetch invcf (the (region args)) else all_records invcf)"

definition main :: "Args \<Rightarrow> World \<Rightarrow> Library \<Rightarrow> result" where
  "main args world lib =
     (if \<not> path_exists world (vcf args)
      then failed [''Error: '' @ vcf args @ '' does not exist'']
      else if \<not> path_exists world (dirname_abspath world (out args))
      then failed [''Error: The directory which contains the output location '' @ out args
                   @ '' does not exist'']
      else if path_isdir world (out args) \<and> out args \<noteq> [] \<and> last (out args) = CHR ''/''
      then failed [''Error: The output location '' @ out args @ '' is a directory'']
      else if truthy (samples args) \<and> length (sfiles_of args) \<noteq> length (prefixes_of args)
      then failed [''--sample-prefixes must be same length as --samples'']
      else
        (case read_sample_files world (sfiles_of args) of
           Inl e \<Rightarrow> \<lparr>status = Raised e, messages = [], header_line = None,
                      rows = [], plots = []\<rparr>
         | Inr loaded \<Rightarrow>
             (case LoadSingleReader world (vcf args) (region args \<noteq> None) of
                None \<Rightarrow> failed []
              | Some invcf \<Rightarrow>
                  if out args = ''stdout'' \<and> plot_afreq args
                  then \<lparr>status = Raised UnboundLocalError,
                        messages = [''Cannot use --out stdout when generating plots''],
                        header_line = None, rows = [], plots = []\<rparr>
                  else
                    (case process_records args lib (prefixes_of args) (records_of args invcf)
                               \<lparr>sample_lists = loaded, num_plotted = 0,
                                rows_written = [], plots_saved = []\<rparr> of
                       (st, err) \<Rightarrow>
                         \<lparr>status = (case err of None \<Rightarrow> Returned 0 | Some e \<Rightarrow> Raised e),
                          messages = [],
                          header_line = Some (join [TAB] (header_of args (prefixes_of args))
                                              @ [NEWLINE]),
                          rows = rows_written st,
                          plots = plots_saved st\<rparr>))))"

text \<open>The default of \<^verbatim>\<open>--precision\<close> in getargs.\<close>

definition default_precision :: int where
  "default_precision = 3"

subsection \<open>The harmonised record, from its description\<close>

text \<open>
  Modelled from the spec: the class \<^verbatim>\<open>TRRecord\<close> of \<^verbatim>\<open>trtools.utils.tr_harmonizer\<close> is
  not part of the source at hand. Its methods are written here from the data model: a locus
  gives, for each sample, no call or the called alleles, each with its sequence and its
  length in repeat units; a sample list keeps the samples it names, \<^verbatim>\<open>None\<close> keeps all;
  a sample without a call is left out altogether; allele counts count every allele of every
  called genotype, frequencies are counts over the total, genotype counts count the called
  samples by their unordered genotype, and the largest allele is NaN when nothing is
  called.
\<close>

record sample_call =
  sample_id :: string
  genotype :: "(string \<times> rat) list option"

definition in_group :: "samplelist \<Rightarrow> string \<Rightarrow> bool" where
  "in_group sl name = (case sl of None \<Rightarrow> True | Some names \<Rightarrow> name \<in> set names)"

definition called_genotypes :: "sample_call list \<Rightarrow> samplelist \<Rightarrow> (string \<times> rat) list list" where
  "called_genotypes calls sl =
     concat (map (\<lambda>c. if in_group sl (sample_id c)
                       then (case genotype c of None \<Rightarrow> [] | Some g \<Rightarrow> [g])
                       else [])
                 calls)"

text \<open>Counting the occurrences of each key, keys in order of first occurrence.\<close>

fun tally :: "'k list \<Rightarrow> ('k, nat) dict" where
  "tally [] = []"
| "tally (k # ks) = (k, Suc (length (filter (\<lambda>x. x = k) ks))) # tally (filter (\<lambda>x. x \<noteq> k) ks)"

definition spec_GetAlleleCounts :: "sample_call list \<Rightarrow> bool \<Rightarrow> samplelist \<Rightarrow> nat adict" where
  "spec_GetAlleleCounts calls uselength sl =
     (let alleles = concat (called_genotypes calls sl)
      in if uselength then ByLength (tally (map snd alleles)) else BySeq (tally (map fst alleles)))"

definition frequencies :: "('k, nat) dict \<Rightarrow> ('k, pyfloat) dict" where
  "frequencies counts =
     map (\<lambda>(a, c). (a, Finite (of_nat c / of_nat (sum_list (dict_values counts))))) counts"

definition spec_GetAlleleFreqs :: "sample_call list \<Rightarrow> bool \<Rightarrow> samplelist \<Rightarrow> pyfloat adict" where
  "spec_GetAlleleFreqs calls uselength sl =
     (case spec_GetAlleleCounts calls uselength sl of
        ByLength d \<Rightarrow> ByLength (frequencies d)
      | BySeq d \<Rightarrow> BySeq (frequencies d))"

definition spec_GetGenotypeCounts :: "sample_call list \<Rightarrow> samplelist \<Rightarrow> bool option \<Rightarrow> gcounts" where
  "spec_GetGenotypeCounts calls sl uselength =
     (let gts = called_genotypes calls sl
      in if uselength = Some False then GBySeq (tally (map (\<lambda>g. sort (map fst g)) gts))
         else GByLength (tally (map (\<lambda>g. sort (map snd g)) gts)))"

definition spec_GetMaxAllele :: "sample_call list \<Rightarrow> samplelist \<Rightarrow> pyfloat" where
  "spec_GetMaxAllele calls sl =
     (let lens = map snd (concat (called_genotypes calls sl))
      in if lens = [] then NaN else Finite (fold max (tl lens) (hd lens)))"

definition spec_TRRecord :: "string \<Rightarrow> int \<Rightarrow> string \<Rightarrow> string \<Rightarrow> sample_call list \<Rightarrow> TRRecord" where
  "spec_TRRecord chrom pos ref mot calls =
     \<lparr>CHROM = chrom, POS = pos, ref_allele = ref, motif = mot,
      GetMaxAllele = spec_GetMaxAllele calls,
      GetAlleleCounts = spec_GetAlleleCounts calls,
      GetAlleleFreqs = spec_GetAlleleFreqs calls,
      GetGenotypeCounts = spec_GetGenotypeCounts calls\<rparr>"

text \<open>The number of samples of a group with a complete call at the locus.\<close>

definition num_called :: "sample_call list \<Rightarrow> samplelist \<Rightarrow> nat" where
  "num_called calls sl =
     length (filter (\<lambda>c. in_group sl (sample_id c) \<and> genotype c \<noteq> None) calls)"

subsection \<open>The output as the design describes it\<close>

text \<open>
  The design lists the statistics in a fixed order and builds the header and every row from
  the requested ones: a column block per statistic, a column per sample group. These
  definitions follow that description; the theorems compare them with the flag-by-flag code
  above.
\<close>

datatype stat = Thresh | AFreq | ACount | HWEP | Het | Entropy | Mean | Mode | Var | NumCalled

definition all_stats :: "stat list" where
  "all_stats = [Thresh, AFreq, ACount, HWEP, Het, Entropy, Mean, Mode, Var, NumCalled]"

fun stat_name :: "stat \<Rightarrow> string" where
  "stat_name Thresh = ''thresh''"
| "stat_name AFreq = ''afreq''"
| "stat_name ACount = ''acount''"
| "stat_name HWEP = ''hwep''"
| "stat_name Het = ''het''"
| "stat_name Entropy = ''entropy''"
| "stat_name Mean = ''mean''"
| "stat_name Mode = ''mode''"
| "stat_name Var = ''var''"
| "stat_name NumCalled = ''numcalled''"

fun is_requested :: "Args \<Rightarrow> stat \<Rightarrow> bool" where
  "is_requested args Thresh = thresh args"
| "is_requested args AFreq = afreq args"
| "is_requested args ACount = acount args"
| "is_requested args HWEP = hwep args"
| "is_requested args Het = het args"
| "is_requested args Entropy = entropy args"
| "is_requested args Mean = mean args"
| "is_requested args Mode = mode args"
| "is_requested args Var = var args"
| "is_requested args NumCalled = numcalled args"

definition requested :: "Args \<Rightarrow> stat list" where
  "requested args = filter (is_requested args) all_stats"

text \<open>The columns of one statistic: its name, or its name with each label as a suffix.\<close>

definition column_names :: "stat \<Rightarrow> string list \<Rightarrow> string list" where
  "column_names s labels =
     (if labels = [] then [stat_name s] else map (\<lambda>l. stat_name s @ ''-'' @ l) labels)"

definition spec_header :: "Args \<Rightarrow> string list \<Rightarrow> string list" where
  "spec_header args labels =
     [''chrom'', ''start'', ''end''] @ concat (map (\<lambda>s. column_names s labels) (requested args))"

text \<open>The text of a float field between its delimiters.\<close>

definition float_field :: "Args \<Rightarrow> pyfloat \<Rightarrow> string" where
  "float_field args val = (if isnan val then ''nan'' else float_format (nat (precision args)) val)"

text \<open>The fields of one statistic for the groups of a run, one per group.\<close>

fun stat_values :: "Args \<Rightarrow> Library \<Rightarrow> TRRecord \<Rightarrow> samplelist list \<Rightarrow> stat \<Rightarrow> string list" where
  "stat_values args lib r groups Thresh = map (float_field args) (GetThresh r groups)"
| "stat_values args lib r groups AFreq = snd (GetAFreq lib r groups False (use_length args))"
| "stat_values args lib r groups ACount = snd (GetAFreq lib r groups True (use_length args))"
| "stat_values args lib r groups HWEP =
     map (float_field args) (snd (GetHWEP lib r groups (use_length args)))"
| "stat_values args lib r groups Het =
     map (float_field args) (snd (GetHet lib r groups (use_length args)))"
| "stat_values args lib r groups Entropy =
     map (float_field args) (snd (GetEntropy lib r groups (use_length args)))"
| "stat_values args lib r groups Mean = map (float_field args) (snd (GetMean lib r groups True))"
| "stat_values args lib r groups Mode = map (float_field args) (snd (GetMode lib r groups True))"
| "stat_values args lib r groups Var =
     map (float_field args) (snd (GetVariance lib r groups True))"
| "stat_values args lib r groups NumCalled = map str_nat (snd (GetNumSamples r groups))"

definition spec_row :: "Args \<Rightarrow> Library \<Rightarrow> TRRecord \<Rightarrow> samplelist list \<Rightarrow> string list" where
  "spec_row args lib r groups =
     coordinates r
     # map (\<lambda>field. TAB # field) (concat (map (stat_values args lib r groups) (requested args)))
     @ [[NEWLINE]]"

text \<open>
  A table as the design words it: the pairs of the distribution sorted by allele, each
  rendered allele:value, joined by commas; the marker for the empty distribution.
\<close>

definition spec_table :: "('k \<Rightarrow> string) \<Rightarrow> ('v \<Rightarrow> string) \<Rightarrow> ('k::linorder, 'v) dict \<Rightarrow> string" where
  "spec_table str fmt d =
     (if d = [] then ''.''
      else join '','' (map (\<lambda>(a, v). str a @ '':'' @ fmt v) (sort_key fst d)))"

text \<open>
  The block main writes for one statistic: the call of its function on main's sample
  lists and the writes of the values it returns.
\<close>

fun stat_block ::
  "Args \<Rightarrow> Library \<Rightarrow> TRRecord \<Rightarrow> stat \<Rightarrow> samplelist list
   \<Rightarrow> samplelist list \<times> string list \<times> py_error option" where
  "stat_block args lib r Thresh sls = float_block (precision_format args) (sls, GetThresh r sls)"
| "stat_block args lib r AFreq sls = str_block (GetAFreq lib r sls False (use_length args))"
| "stat_block args lib r ACount sls = str_block (GetAFreq lib r sls True (use_length args))"
| "stat_block args lib r HWEP sls =
     float_block (precision_format args) (GetHWEP lib r sls (use_length args))"
| "stat_block args lib r Het sls =
     float_block (precision_format args) (GetHet lib r sls (use_length args))"
| "stat_block args lib r Entropy sls =
     float_block (precision_format args) (GetEntropy lib r sls (use_length args))"
| "stat_block args lib r Mean sls = float_block (precision_format args) (GetMean lib r sls True)"
| "stat_block args lib r Mode sls = float_block (precision_format args) (GetMode lib r sls True)"
| "stat_block args lib r Var sls =
     float_block (precision_format args) (GetVariance lib r sls True)"
| "stat_block args lib r NumCalled sls =
     str_block (case GetNumSamples r sls of (sls', vals) \<Rightarrow> (sls', map str_nat vals))"

text \<open>A dictionary has each key once.\<close>

fun wf_adict :: "'v adict \<Rightarrow> bool" where
  "wf_adict (ByLength d) = distinct (dict_keys d)"
| "wf_adict (BySeq d) = distinct (dict_keys d)"

text \<open>
  The sample groups of a run, as the design has them: one group for each sample file, in
  the order of the files, holding the names read from it; without sample files the single
  group of all samples.
\<close>

definition groups_of :: "Args \<Rightarrow> World \<Rightarrow> samplelist list" where
  "groups_of args world =
     (if truthy (samples args)
      then map (\<lambda>sf. Some (map strip (the (readlines world sf)))) (sfiles_of args)
      else [None])"

text \<open>The field of one statistic for one group.\<close>

fun stat_value :: "Args \<Rightarrow> Library \<Rightarrow> TRRecord \<Rightarrow> samplelist \<Rightarrow> stat \<Rightarrow> string" where
  "stat_value args lib r sl Thresh = float_field args (GetMaxAllele r sl)"
| "stat_value args lib r sl AFreq =
     (case GetAlleleFreqs r (use_length args) sl of
        ByLength d \<Rightarrow> freq_table (str_float lib) d
      | BySeq d \<Rightarrow> freq_table (\<lambda>a. a) d)"
| "stat_value args lib r sl ACount =
     (case GetAlleleCounts r (use_length args) sl of
        ByLength d \<Rightarrow> count_table (str_float lib) d
      | BySeq d \<Rightarrow> count_table (\<lambda>a. a) d)"
| "stat_value args lib r sl HWEP =
     float_field args (utils_GetHardyWeinbergBinomialTest lib
                         (GetAlleleFreqs r (use_length args) sl)
                         (GetGenotypeCounts r sl (Some (use_length args))))"
| "stat_value args lib r sl Het =
     float_field args (utils_GetHeterozygosity lib (GetAlleleFreqs r (use_length args) sl))"
| "stat_value args lib r sl Entropy =
     float_field args (utils_GetEntropy lib (GetAlleleFreqs r (use_length args) sl))"
| "stat_value args lib r sl Mean = float_field args (utils_GetMean lib (GetAlleleFreqs r True sl))"
| "stat_value args lib r sl Mode = float_field args (utils_GetMode lib (GetAlleleFreqs r True sl))"
| "stat_value args lib r sl Var =
     float_field args (utils_GetVariance lib (GetAlleleFreqs r True sl))"
| "stat_value args lib r sl NumCalled =
     str_nat (sum_list (gcounts_values (GetGenotypeCounts r sl None)))"

text \<open>
  The fields of the row of a locus: chromosome, start, end, then for each requested
  statistic, in the fixed order, its field for each group, in the order of the groups.
\<close>

definition row_fields :: "Args \<Rightarrow> Library \<Rightarrow> TRRecord \<Rightarrow> samplelist list \<Rightarrow> string list" where
  "row_fields args lib r groups =
     [CHROM r, str_int (POS r), str_int (POS r + int (length (ref_allele r)))]
     @ concat (map (\<lambda>s. map (\<lambda>sl. stat_value args lib r sl s) groups) (requested args))"

subsection \<open>A locus and a run to compute with\<close>

text \<open>
  The scenario of the design: five diploid samples whose alleles have the lengths
  10 (six times), 11 (three times) and 12 (once), and a locus where no sample is called.
\<close>

definition calls0 :: "sample_call list" where
  "calls0 =
     [\<lparr>sample_id = ''s1'', genotype = Some [(''AAAAAAAAAA'', 10), (''AAAAAAAAAA'', 10)]\<rparr>,
      \<lparr>sample_id = ''s2'', genotype = Some [(''AAAAAAAAAA'', 10), (''AAAAAAAAAA'', 10)]\<rparr>,
      \<lparr>sample_id = ''s3'', genotype = Some [(''AAAAAAAAAA'', 10), (''AAAAAAAAAA'', 10)]\<rparr>,
      \<lparr>sample_id = ''s4'', genotype = Some [(''AAAAAAAAAAA'', 11), (''AAAAAAAAAAA'', 11)]\<rparr>,
      \<lparr>sample_id = ''s5'', genotype = Some [(''AAAAAAAAAAAA'', 12), (''AAAAAAAAAAA'', 11)]\<rparr>,
      \<lparr>sample_id = ''s6'', genotype = None\<rparr>]"

definition locus0 :: TRRecord where
  "locus0 = spec_TRRecord ''chr1'' 100 ''AAAAAAAAAA'' ''A'' calls0"

definition nocall_locus :: TRRecord where
  "nocall_locus = spec_TRRecord ''chr1'' 50 ''AAAA'' ''A''
                    [\<lparr>sample_id = ''s1'', genotype = None\<rparr>, \<lparr>sample_id = ''s2'', genotype = None\<rparr>]"

definition lib0 :: Library where
  "lib0 = \<lparr>utils_GetHardyWeinbergBinomialTest = (\<lambda>freqs counts. NaN),
           utils_GetHeterozygosity = (\<lambda>freqs. Finite (54 / 100)),
           utils_GetEntropy = (\<lambda>freqs. Finite (1295 / 1000)),
           utils_GetMean = (\<lambda>freqs. Finite (21 / 2)),
           utils_GetMode = (\<lambda>freqs. Finite 10),
           utils_GetVariance = (\<lambda>freqs. Finite (45 / 100)),
           str_float = format_f 1\<rparr>"

definition args0 :: Args where
  "args0 = \<lparr>vcf = ''in.vcf'', out = ''res'', vcftype = ''auto'', precision = default_precision,
            samples = None, sample_prefixes = None, region = None,
            thresh = False, afreq = False, acount = False, hwep = False, het = False,
            entropy = False, mean = False, mode = False, var = False, numcalled = False,
            use_length = True, plot_afreq = False\<rparr>"

definition world0 :: "TRRecord list \<Rightarrow> World" where
  "world0 records =
     \<lparr>path_exists = (\<lambda>path. True), dirname_abspath = (\<lambda>path. ''/work''),
      path_isdir = (\<lambda>path. False),
      readlines = (\<lambda>path. if path = ''groupA.txt'' then Some [''s1'', ''s2 '', ''s4'']
                           else if path = ''groupB.txt'' then Some [''s6'']
                           else None),
      LoadSingleReader = (\<lambda>path checkgz. Some \<lparr>all_records = records, fetch = (\<lambda>reg. [])\<rparr>)\<rparr>"

text \<open>A run over two sample groups: the second names a sample without a call.\<close>

definition args_two_groups :: Args where
  "args_two_groups =
     args0\<lparr>samples := Some ''groupA.txt,groupB.txt'', sample_prefixes := Some ''A,B'',
            thresh := True, afreq := True, numcalled := True\<rparr>"

section \<open>Properties\<close>

subsection \<open>Blocks of a row\<close>

lemma run_block_False [simp]: "run_block False blk st = st"
proof -
  obtain sls written err where "st = (sls, written, err)" by (cases st) auto
  then show ?thesis by (cases err) simp_all
qed

subsection \<open>Mean, mode and variance take the length-collapsed distribution\<close>

text \<open>
  C10. GetMean, GetMode and GetVariance return the same result for \<^verbatim>\<open>uselength=True\<close> and
  \<^verbatim>\<open>uselength=False\<close>: each computes over \<^verbatim>\<open>GetAlleleFreqs(uselength=True)\<close> whatever
  the argument. main does not pass the flag to them: a row without the statistics that do
  take it is the same for both values of \<^verbatim>\<open>--use-length\<close>.
\<close>

theorem mean_mode_variance_ignore_uselength:
  "GetMean lib trrecord samplelists True = GetMean lib trrecord samplelists False
   \<and> GetMode lib trrecord samplelists True = GetMode lib trrecord samplelists False
   \<and> GetVariance lib trrecord samplelists True = GetVariance lib trrecord samplelists False
   \<and> snd (GetMean lib trrecord samplelists uselength)
       = map (\<lambda>sl. utils_GetMean lib (GetAlleleFreqs trrecord True sl))
             (append_default samplelists)
   \<and> snd (GetMode lib trrecord samplelists uselength)
       = map (\<lambda>sl. utils_GetMode lib (GetAlleleFreqs trrecord True sl))
             (append_default samplelists)
   \<and> snd (GetVariance lib trrecord samplelists uselength)
       = map (\<lambda>sl. utils_GetVariance lib (GetAlleleFreqs trrecord True sl))
             (append_default samplelists)
   \<and> write_row (args\<lparr>afreq := False, acount := False, hwep := False, het := False,
                       entropy := False, use_length := True\<rparr>) lib trrecord samplelists
       = write_row (args\<lparr>afreq := False, acount := False, hwep := False, het := False,
                         entropy := False, use_length := False\<rparr>) lib trrecord samplelists"
  by (simp add: GetMean_def GetMode_def GetVariance_def write_row_def precision_format_def Let_def)

subsection \<open>The sample lists after a statistic has run\<close>

text \<open>
  A run without \<^verbatim>\<open>--samples\<close> that plots: the first locus is plotted and written, and
  the plot of the second locus raises IndexError, since main's sample lists are now
  \<^verbatim>\<open>[None]\<close> while its labels are still empty.
\<close>

lemma second_plot_fails_after_append:
  "status (main (args0\<lparr>numcalled := True, plot_afreq := True\<rparr>) (world0 [locus0, locus0]) lib0)
     = Raised IndexError
   \<and> length (rows (main (args0\<lparr>numcalled := True, plot_afreq := True\<rparr>)
                       (world0 [locus0, locus0]) lib0)) = 1"
  by code_simp

text \<open>
  C6. The claim is that no statistic changes the list of sample lists it is given. Called
  with the empty list (a run without \<^verbatim>\<open>--samples\<close>), each of GetAFreq, GetHWEP, GetHet,
  GetEntropy, GetMean, GetMode, GetVariance and GetNumSamples leaves the caller's list as
  \<^verbatim>\<open>[None]\<close>.
\<close>

theorem statistics_append_to_empty_samplelists:
  "fst (GetAFreq lib trrecord [] count uselength) = [None]
   \<and> fst (GetHWEP lib trrecord [] uselength) = [None]
   \<and> fst (GetHet lib trrecord [] uselength) = [None]
   \<and> fst (GetEntropy lib trrecord [] uselength) = [None]
   \<and> fst (GetMean lib trrecord [] uselength) = [None]
   \<and> fst (GetMode lib trrecord [] uselength) = [None]
   \<and> fst (GetVariance lib trrecord [] uselength) = [None]
   \<and> fst (GetNumSamples trrecord []) = [None]"
  by (simp add: GetAFreq_def GetHWEP_def GetHet_def GetEntropy_def GetMean_def GetMode_def
      GetVariance_def GetNumSamples_def append_default_def)

subsection \<open>Sample files and labels of different number\<close>

text \<open>
  C7. When \<^verbatim>\<open>--samples\<close> and \<^verbatim>\<open>--sample-prefixes\<close> are both given and name different
  numbers of files and labels, main returns 1 with a message, and has written nothing: no
  header, no row, no plot.
\<close>

theorem sample_prefix_mismatch_fails:
  assumes "samples args = Some s" and "s \<noteq> []"
    and "sample_prefixes args = Some p" and "p \<noteq> []"
    and "length (split_on CHR '','' s) \<noteq> length (split_on CHR '','' p)"
  shows "status (main args world lib) = Returned 1
         \<and> messages (main args world lib) \<noteq> []
         \<and> header_line (main args world lib) = None
         \<and> rows (main args world lib) = []
         \<and> plots (main args world lib) = []
         \<and> out_text (main args world lib) = []"
  using assms
  by (simp add: main_def failed_def out_text_def sfiles_of_def prefixes_of_def)

theorem sample_prefix_mismatch_fails_witness:
  "status (main (args0\<lparr>samples := Some ''groupA.txt,groupB.txt'', sample_prefixes := Some ''A'',
                       numcalled := True\<rparr>) (world0 [locus0]) lib0) = Returned 1
   \<and> messages (main (args0\<lparr>samples := Some ''groupA.txt,groupB.txt'', sample_prefixes := Some ''A'',
                           numcalled := True\<rparr>) (world0 [locus0]) lib0)
       = [''--sample-prefixes must be same length as --samples'']
   \<and> out_text (main (args0\<lparr>samples := Some ''groupA.txt,groupB.txt'', sample_prefixes := Some ''A'',
                           numcalled := True\<rparr>) (world0 [locus0]) lib0) = []"
  using sample_prefix_mismatch_fails
          [of "args0\<lparr>samples := Some ''groupA.txt,groupB.txt'', sample_prefixes := Some ''A'',
                     numcalled := True\<rparr>" "''groupA.txt,groupB.txt''" "''A''" "world0 [locus0]" lib0]
  by (simp add: args0_def world0_def main_def failed_def sfiles_of_def prefixes_of_def)

subsection \<open>The number of called samples\<close>

lemma sum_tally: "sum_list (dict_values (tally ks)) = length ks"
proof (induction ks rule: tally.induct)
  case 1
  then show ?case by (simp add: dict_values_def)
next
  case (2 k ks)
  have "length (filter (\<lambda>x. x = k) ks) + length (filter (\<lambda>x. x \<noteq> k) ks) = length ks"
    using sum_length_filter_compl [of "\<lambda>x. x = k" ks] by simp
  with 2 show ?case by (simp add: dict_values_def)
qed

lemma length_called_genotypes: "length (called_genotypes calls sl) = num_called calls sl"
  unfolding called_genotypes_def num_called_def
  by (induction calls) (auto split: option.splits)

lemma sum_spec_GetGenotypeCounts:
  "sum_list (gcounts_values (spec_GetGenotypeCounts calls sl uselength)) = num_called calls sl"
  by (simp add: spec_GetGenotypeCounts_def Let_def sum_tally length_called_genotypes)

text \<open>
  C9. On a record as the design describes it, GetNumSamples gives, for each group, the
  number of its samples with a complete call. The genotype counts add up to that number
  whether they are keyed by length or by sequence, so the representation does not enter.
  The result is a list of integers, which has no place for NaN; a group without a called
  sample gets 0.
\<close>

theorem GetNumSamples_counts_called:
  "snd (GetNumSamples (spec_TRRecord chrom pos ref mot calls) samplelists)
     = map (num_called calls) (append_default samplelists)
   \<and> sum_list (gcounts_values (spec_GetGenotypeCounts calls sl (Some True))) = num_called calls sl
   \<and> sum_list (gcounts_values (spec_GetGenotypeCounts calls sl (Some False))) = num_called calls sl
   \<and> (num_called calls sl = 0
        \<longrightarrow> snd (GetNumSamples (spec_TRRecord chrom pos ref mot calls) [sl]) = [0])"
  by (simp add: GetNumSamples_def spec_TRRecord_def sum_spec_GetGenotypeCounts append_default_def)

theorem GetNumSamples_counts_called_witness:
  "snd (GetNumSamples locus0 [Some [''s1'', ''s6''], None]) = [1, 5]
   \<and> num_called calls0 (Some [''s6'']) = 0
   \<and> snd (GetNumSamples locus0 [Some [''s6'']]) = [0]"
  using GetNumSamples_counts_called
          [of "''chr1''" 100 "''AAAAAAAAAA''" "''A''" calls0 "[Some [''s1'', ''s6''], None]"
              "Some [''s6'']"]
  by (simp add: locus0_def calls0_def num_called_def in_group_def append_default_def)

subsection \<open>The cap on plotted loci\<close>

text \<open>Whatever the input, a run saves at most MAXPLOTS + 1 plots.\<close>

lemma process_records_plot_count:
  assumes "num_plotted st = length (plots_saved st)"
    and "process_records args lib prefixes recs st = (st', err)"
  shows "num_plotted st' = length (plots_saved st')
         \<and> length (plots_saved st') \<le> max (length (plots_saved st)) (Suc MAXPLOTS)"
  using assms
proof (induction recs arbitrary: st)
  case Nil
  then show ?case by simp
next
  case (Cons r recs)
  show ?case
  proof (cases "plot_afreq args \<and> num_plotted st \<le> MAXPLOTS")
    case False
    obtain g w e where row: "write_row args lib r (sample_lists st) = (g, w, e)"
      by (cases "write_row args lib r (sample_lists st)") auto
    define st2 where "st2 = st\<lparr>sample_lists := g, rows_written := rows_written st @ [w]\<rparr>"
    show ?thesis
    proof (cases e)
      case None
      with False Cons.prems(2) row
      have "process_records args lib prefixes recs st2 = (st', err)"
        by (auto simp: st2_def Let_def)
      from Cons.IH [OF _ this] Cons.prems(1) show ?thesis by (simp add: st2_def)
    next
      case (Some x)
      with False Cons.prems row have "st' = st2" by (auto simp: st2_def Let_def)
      with Cons.prems(1) show ?thesis by (simp add: st2_def)
    qed
  next
    case True
    show ?thesis
    proof (cases "PlotAlleleFreqs r (out args) (sample_lists st) prefixes")
      case (Inl x)
      with True Cons.prems show ?thesis by simp
    next
      case (Inr p)
      define st1 where "st1 = st\<lparr>plots_saved := plots_saved st @ [p],
                                    num_plotted := num_plotted st + 1\<rparr>"
      obtain g w e where row: "write_row args lib r (sample_lists st1) = (g, w, e)"
        by (cases "write_row args lib r (sample_lists st1)") auto
      define st2 where "st2 = st1\<lparr>sample_lists := g, rows_written := rows_written st1 @ [w]\<rparr>"
      have inv: "num_plotted st2 = length (plots_saved st2)"
        "length (plots_saved st2) = Suc (length (plots_saved st))"
        "length (plots_saved st2) \<le> Suc MAXPLOTS"
        using Cons.prems(1) True by (simp_all add: st1_def st2_def)
      show ?thesis
      proof (cases e)
        case None
        with True Inr Cons.prems(2) row
        have "process_records args lib prefixes recs st2 = (st', err)"
          by (auto simp: st1_def st2_def Let_def)
        from Cons.IH [OF inv(1) this] inv(2,3) show ?thesis by simp
      next
        case (Some x)
        with True Inr Cons.prems(2) row have "st' = st2" by (auto simp: st1_def st2_def Let_def)
        with inv show ?thesis by simp
      qed
    qed
  qed
qed

lemma plots_at_most_eleven: "length (plots (main args world lib)) \<le> 11"
proof -
  have "length (plots_saved st) \<le> 11"
    if "process_records args lib prefixes recs
          \<lparr>sample_lists = loaded, num_plotted = 0, rows_written = [], plots_saved = []\<rparr>
        = (st, err)" for prefixes recs loaded st err
    using process_records_plot_count [OF _ that] by (simp add: MAXPLOTS_def)
  then show ?thesis
    by (auto simp: main_def failed_def split: sum.splits option.splits prod.splits)
qed

text \<open>
  C1. The claim is that no run plots more than MAXPLOTS = 10 loci. The loop plots while
  \<^verbatim>\<open>num_plotted <= MAXPLOTS\<close>, that is for the counts 0 to 10: a run over eleven loci
  with \<^verbatim>\<open>--plot-afreq\<close> saves eleven plots. All eleven rows are written.
\<close>

theorem eleven_loci_eleven_plots:
  "MAXPLOTS = 10
   \<and> length (plots (main (args0\<lparr>thresh := True, plot_afreq := True\<rparr>)
                          (world0 (replicate 11 locus0)) lib0)) = 11
   \<and> length (rows (main (args0\<lparr>thresh := True, plot_afreq := True\<rparr>)
                         (world0 (replicate 11 locus0)) lib0)) = 11
   \<and> status (main (args0\<lparr>thresh := True, plot_afreq := True\<rparr>)
                   (world0 (replicate 11 locus0)) lib0) = Returned 0"
  by code_simp

subsection \<open>A plot that fails\<close>

lemma process_records_append:
  "process_records args lib prefixes (xs @ ys) st =
     (case process_records args lib prefixes xs st of
        (st', None) \<Rightarrow> process_records args lib prefixes ys st'
      | (st', Some e) \<Rightarrow> (st', Some e))"
proof (induction xs arbitrary: st)
  case Nil
  then show ?case by simp
next
  case (Cons x xs)
  then show ?case
    by (simp add: Let_def split: sum.splits prod.splits option.splits)
qed

text \<open>
  C5 as stated fails: at a locus where no sample is called PlotAlleleFreqs raises
  ValueError, main ends with that exception, and neither the row of that locus nor the
  row of the locus after it is written.
\<close>

theorem plot_failure_aborts_run:
  "status (main (args0\<lparr>numcalled := True, plot_afreq := True\<rparr>)
                (world0 [nocall_locus, locus0]) lib0) = Raised ValueError
   \<and> rows (main (args0\<lparr>numcalled := True, plot_afreq := True\<rparr>)
                 (world0 [nocall_locus, locus0]) lib0) = []"
  by code_simp

text \<open>
  C5, amended. An exception raised by PlotAlleleFreqs is not caught. If the loop has come
  through the loci before without an exception and the plot of the next locus raises, the
  loop ends there with that exception and the state it had: the row of the locus and the
  rows of all later loci are not written, the rows and plots of the earlier loci stay.
\<close>

theorem plot_failure_ends_run:
  assumes "process_records args lib prefixes before st0 = (st, None)"
    and "plot_afreq args" and "num_plotted st \<le> MAXPLOTS"
    and "PlotAlleleFreqs trrecord (out args) (sample_lists st) prefixes = Inl e"
  shows "process_records args lib prefixes (before @ trrecord # rest) st0 = (st, Some e)"
  using assms by (simp add: process_records_append)

theorem plot_failure_ends_run_witness:
  "snd (process_records (args0\<lparr>thresh := True, plot_afreq := True\<rparr>) lib0 []
          ([locus0] @ nocall_locus # [locus0])
          \<lparr>sample_lists = [], num_plotted = 0, rows_written = [], plots_saved = []\<rparr>)
     = Some ValueError
   \<and> length (rows_written (fst (process_records (args0\<lparr>thresh := True, plot_afreq := True\<rparr>) lib0 []
          ([locus0] @ nocall_locus # [locus0])
          \<lparr>sample_lists = [], num_plotted = 0, rows_written = [], plots_saved = []\<rparr>))) = 1
   \<and> length (plots_saved (fst (process_records (args0\<lparr>thresh := True, plot_afreq := True\<rparr>) lib0 []
          ([locus0] @ nocall_locus # [locus0])
          \<lparr>sample_lists = [], num_plotted = 0, rows_written = [], plots_saved = []\<rparr>))) = 1"
proof -
  define A where "A = args0\<lparr>thresh := True, plot_afreq := True\<rparr>"
  define st0 where
    "st0 = \<lparr>sample_lists = [], num_plotted = 0, rows_written = [], plots_saved = []\<rparr>"
  define st where "st = fst (process_records A lib0 [] [locus0] st0)"
  have "snd (process_records A lib0 [] [locus0] st0) = None"
    unfolding A_def st0_def by code_simp
  then have before: "process_records A lib0 [] [locus0] st0 = (st, None)"
    by (simp add: st_def prod_eq_iff)
  have flag: "plot_afreq A" by (simp add: A_def)
  have cap: "num_plotted st \<le> MAXPLOTS" unfolding st_def A_def st0_def by code_simp
  have plot: "PlotAlleleFreqs nocall_locus (out A) (sample_lists st) [] = Inl ValueError"
    unfolding st_def A_def st0_def by code_simp
  have sizes: "length (rows_written st) = 1" "length (plots_saved st) = 1"
    unfolding st_def A_def st0_def by code_simp+
  from plot_failure_ends_run [OF before flag cap plot, of "[locus0]"] sizes
  show ?thesis by (simp add: A_def st0_def)
qed

subsection \<open>The marker of an undefined value\<close>

lemma format_general_marks:
  "CHR ''-'' \<in> set (format_general p x) \<or> CHR ''e'' \<in> set (format_general p x)
   \<or> CHR ''.'' \<in> set (format_general p x)"
proof -
  obtain ds decpt where sd: "sig_digits (max 1 p) \<bar>x\<bar> = (ds, decpt)"
    by (cases "sig_digits (max 1 p) \<bar>x\<bar>") auto
  show ?thesis
    unfolding format_general_def Let_def sd prod.case
    by (simp split: if_splits)
qed

lemma float_format_not_nan: "\<not> isnan v \<Longrightarrow> float_format p v \<noteq> ''nan''"
proof (cases v)
  case (Finite x)
  show ?thesis
  proof
    assume "float_format p v = ''nan''"
    with Finite have "format_general p x = ''nan''" by simp
    with format_general_marks [of p x] show False by auto
  qed
qed simp_all

text \<open>
  C2 as stated fails: what is written for NaN is the column delimiter followed by the
  bare word nan. Split at the delimiter, the text is the end of the field before and the
  field \<^verbatim>\<open>nan\<close>.
\<close>

theorem nan_field_is_bare_nan:
  "split_on TAB (projr (format_nan_precision (precision_format args0) NaN)) = ['''', ''nan'']"
  by (simp add: format_nan_precision_def TAB_def)

text \<open>
  C2, amended. Every NaN value is written as the fixed text tab, n, a, n, whatever the
  precision; no value that is not NaN is written as that text.
\<close>

theorem nan_marker_fixed_and_distinct:
  "format_nan_precision (precision_format args) NaN = Inr (TAB # ''nan'')
   \<and> (\<forall>val. \<not> isnan val \<longrightarrow>
          format_nan_precision (precision_format args) val \<noteq> Inr (TAB # ''nan''))"
  by (auto simp: format_nan_precision_def precision_format_def str_format_def
      float_format_not_nan)

theorem nan_marker_fixed_and_distinct_witness:
  "format_nan_precision (precision_format args0) NaN = Inr (TAB # ''nan'')
   \<and> \<not> isnan (Finite (21 / 2))
   \<and> format_nan_precision (precision_format args0) (Finite (21 / 2)) \<noteq> Inr (TAB # ''nan'')"
  using nan_marker_fixed_and_distinct [of args0] by simp

subsection \<open>Header and rows\<close>

lemma concat_map_filter_Cons:
  "concat (map f (filter P (x # xs))) = (if P x then f x else []) @ concat (map f (filter P xs))"
  by simp

lemma header_of_spec: "header_of args prefixes = spec_header args prefixes"
  unfolding header_of_def spec_header_def requested_def all_stats_def column_names_def
  by (simp only: concat_map_filter_Cons is_requested.simps stat_name.simps GetHeader_def
      length_0_conv filter.simps(1) list.map(1) concat.simps(1) append_Nil2)

lemma stat_block_funs:
  "stat_block args lib r Thresh = (\<lambda>sls. float_block (precision_format args) (sls, GetThresh r sls))"
  "stat_block args lib r AFreq = (\<lambda>sls. str_block (GetAFreq lib r sls False (use_length args)))"
  "stat_block args lib r ACount = (\<lambda>sls. str_block (GetAFreq lib r sls True (use_length args)))"
  "stat_block args lib r HWEP = (\<lambda>sls. float_block (precision_format args) (GetHWEP lib r sls (use_length args)))"
  "stat_block args lib r Het = (\<lambda>sls. float_block (precision_format args) (GetHet lib r sls (use_length args)))"
  "stat_block args lib r Entropy = (\<lambda>sls. float_block (precision_format args) (GetEntropy lib r sls (use_length args)))"
  "stat_block args lib r Mean = (\<lambda>sls. float_block (precision_format args) (GetMean lib r sls True))"
  "stat_block args lib r Mode = (\<lambda>sls. float_block (precision_format args) (GetMode lib r sls True))"
  "stat_block args lib r Var = (\<lambda>sls. float_block (precision_format args) (GetVariance lib r sls True))"
  "stat_block args lib r NumCalled = (\<lambda>sls. str_block (case GetNumSamples r sls of (sls', vals) \<Rightarrow> (sls', map str_nat vals)))"
  by (rule ext, simp)+

lemma write_row_fold:
  "write_row args lib r sls =
     run_block True (\<lambda>sls. (sls, [[NEWLINE]], None))
       (foldl (\<lambda>st s. run_block (is_requested args s) (stat_block args lib r s) st)
              (sls, [coordinates r], None) all_stats)"
  unfolding write_row_def Let_def all_stats_def
  by (simp only: foldl.simps is_requested.simps stat_block_funs)

lemma append_default_idem: "append_default (append_default sls) = append_default sls"
  by (simp add: append_default_def)

lemma append_default_fixed: "append_default g = G \<Longrightarrow> append_default G = G"
  using append_default_idem [of g] by simp

lemma GetThresh_append_default: "GetThresh r (append_default sls) = GetThresh r sls"
  by (simp add: GetThresh_def append_default_def)

lemma write_floats_fields:
  "write_floats (precision_format args) vals = (ws, None)
   \<Longrightarrow> ws = map (\<lambda>v. TAB # float_field args v) vals"
proof (induction vals arbitrary: ws)
  case Nil
  then show ?case by simp
next
  case (Cons v vals)
  then show ?case
    by (auto simp: format_nan_precision_def str_format_def precision_format_def float_field_def
        split: sum.splits prod.splits if_splits)
qed

lemma write_floats_valid:
  "0 \<le> precision args \<Longrightarrow> precision args \<le> 2147483647
   \<Longrightarrow> snd (write_floats (precision_format args) vals) = None"
  by (induction vals)
     (auto simp: format_nan_precision_def str_format_def precision_format_def split: prod.splits)

lemma float_block_ok:
  assumes "float_block (precision_format args) (G, vals) = (g', ws, err)"
  shows "g' = G \<and> (err = None \<longrightarrow> ws = map (\<lambda>field. TAB # field) (map (float_field args) vals))
         \<and> (0 \<le> precision args \<and> precision args \<le> 2147483647 \<longrightarrow> err = None)"
  using assms write_floats_fields [of args vals ws] write_floats_valid [of args vals]
  by (auto simp: float_block_def)

lemma stat_block_ok:
  assumes "append_default g = G" and "stat_block args lib r s g = (g', ws, err)"
  shows "append_default g' = G
         \<and> (err = None \<longrightarrow> ws = map (\<lambda>field. TAB # field) (stat_values args lib r G s))
         \<and> (0 \<le> precision args \<and> precision args \<le> 2147483647 \<longrightarrow> err = None)"
proof -
  have GG: "append_default G = G" using assms(1) by (rule append_default_fixed)
  have th: "GetThresh r g = GetThresh r G"
    using assms(1) GetThresh_append_default [of r g] by simp
  show ?thesis
  proof (cases s)
    case Thresh
    with assms th float_block_ok [of args g "GetThresh r G" g' ws err] show ?thesis by simp
  next
    case AFreq
    with assms GG show ?thesis by (auto simp: str_block_def write_strs_def GetAFreq_def Let_def)
  next
    case ACount
    with assms GG show ?thesis by (auto simp: str_block_def write_strs_def GetAFreq_def Let_def)
  next
    case HWEP
    with assms GG float_block_ok [of args G "snd (GetHWEP lib r G (use_length args))" g' ws err]
    show ?thesis by (simp add: GetHWEP_def Let_def)
  next
    case Het
    with assms GG float_block_ok [of args G "snd (GetHet lib r G (use_length args))" g' ws err]
    show ?thesis by (simp add: GetHet_def Let_def)
  next
    case Entropy
    with assms GG float_block_ok [of args G "snd (GetEntropy lib r G (use_length args))" g' ws err]
    show ?thesis by (simp add: GetEntropy_def Let_def)
  next
    case Mean
    with assms GG float_block_ok [of args G "snd (GetMean lib r G True)" g' ws err]
    show ?thesis by (simp add: GetMean_def Let_def)
  next
    case Mode
    with assms GG float_block_ok [of args G "snd (GetMode lib r G True)" g' ws err]
    show ?thesis by (simp add: GetMode_def Let_def)
  next
    case Var
    with assms GG float_block_ok [of args G "snd (GetVariance lib r G True)" g' ws err]
    show ?thesis by (simp add: GetVariance_def Let_def)
  next
    case NumCalled
    with assms GG show ?thesis
      by (auto simp: str_block_def write_strs_def GetNumSamples_def Let_def)
  qed
qed


lemma foldl_blocks_raised:
  "foldl (\<lambda>st s. run_block (flag s) (blk s) st) (g, w, Some e) ss = (g, w, Some e)"
  by (induction ss) simp_all

lemma foldl_blocks_ok:
  assumes "append_default g = G"
    and "foldl (\<lambda>st s. run_block (is_requested args s) (stat_block args lib r s) st)
           (g, w, None) ss = (g', w', err)"
  shows "append_default g' = G
         \<and> (err = None \<longrightarrow>
              w' = w @ map (\<lambda>field. TAB # field)
                         (concat (map (stat_values args lib r G) (filter (is_requested args) ss))))
         \<and> (0 \<le> precision args \<and> precision args \<le> 2147483647 \<longrightarrow> err = None)"
  using assms
proof (induction ss arbitrary: g w)
  case Nil
  then show ?case by simp
next
  case (Cons s ss)
  show ?case
  proof (cases "is_requested args s")
    case False
    with Cons.prems Cons.IH [of g w] show ?thesis by simp
  next
    case True
    obtain g1 ws e1 where blk: "stat_block args lib r s g = (g1, ws, e1)"
      by (cases "stat_block args lib r s g") auto
    note ok = stat_block_ok [OF Cons.prems(1) blk]
    show ?thesis
    proof (cases e1)
      case None
      with Cons.prems(2) True blk
      have "foldl (\<lambda>st s. run_block (is_requested args s) (stat_block args lib r s) st)
              (g1, w @ ws, None) ss = (g', w', err)" by simp
      from Cons.IH [OF _ this] ok None True show ?thesis by simp
    next
      case (Some e)
      with Cons.prems(2) True blk have "(g1, w @ ws, Some e) = (g', w', err)"
        by (simp add: foldl_blocks_raised)
      with ok Some show ?thesis by auto
    qed
  qed
qed

lemma write_row_ok:
  assumes "append_default g = G" and "write_row args lib r g = (g', w, err)"
  shows "append_default g' = G
         \<and> (err = None \<longrightarrow> w = spec_row args lib r G)
         \<and> (0 \<le> precision args \<and> precision args \<le> 2147483647 \<longrightarrow> err = None)"
proof -
  obtain g1 w1 e1 where f:
    "foldl (\<lambda>st s. run_block (is_requested args s) (stat_block args lib r s) st)
       (g, [coordinates r], None) all_stats = (g1, w1, e1)"
    by (cases "foldl (\<lambda>st s. run_block (is_requested args s) (stat_block args lib r s) st)
                 (g, [coordinates r], None) all_stats") auto
  note ok = foldl_blocks_ok [OF assms(1) f]
  from assms(2) f have "run_block True (\<lambda>sls. (sls, [[NEWLINE]], None)) (g1, w1, e1) = (g', w, err)"
    by (simp add: write_row_fold)
  with ok show ?thesis
    by (cases e1) (auto simp: spec_row_def requested_def)
qed

lemma process_records_rows:
  assumes "0 \<le> precision args" and "precision args \<le> 2147483647"
    and "append_default (sample_lists st) = G"
    and "process_records args lib prefixes recs st = (st', err)"
  shows "append_default (sample_lists st') = G
         \<and> (\<exists>n\<le>length recs. rows_written st'
               = rows_written st @ map (\<lambda>r. spec_row args lib r G) (take n recs)
               \<and> (err = None \<longrightarrow> n = length recs))"
  using assms(3,4)
proof (induction recs arbitrary: st)
  case Nil
  then show ?case by simp
next
  case (Cons r recs)
  show ?case
  proof (cases "plot_afreq args \<and> num_plotted st \<le> MAXPLOTS
                \<and> isl (PlotAlleleFreqs r (out args) (sample_lists st) prefixes)")
    case True
    then obtain e where "PlotAlleleFreqs r (out args) (sample_lists st) prefixes = Inl e"
      by (cases "PlotAlleleFreqs r (out args) (sample_lists st) prefixes") auto
    with True Cons.prems have "st' = st" and "err = Some e" by simp_all
    with Cons.prems(1) show ?thesis by (intro conjI exI [of _ 0]) simp_all
  next
    case False
    define st1 where "st1 =
      (if plot_afreq args \<and> num_plotted st \<le> MAXPLOTS
       then st\<lparr>plots_saved := plots_saved st
                  @ [projr (PlotAlleleFreqs r (out args) (sample_lists st) prefixes)],
               num_plotted := num_plotted st + 1\<rparr>
       else st)"
    have st1: "sample_lists st1 = sample_lists st" "rows_written st1 = rows_written st"
      by (simp_all add: st1_def)
    obtain g w e where row: "write_row args lib r (sample_lists st1) = (g, w, e)"
      by (cases "write_row args lib r (sample_lists st1)") auto
    from write_row_ok [OF _ row, of G] Cons.prems(1) st1 assms(1,2)
    have ok: "append_default g = G" "w = spec_row args lib r G" "e = None" by simp_all
    define st2 where "st2 = st1\<lparr>sample_lists := g, rows_written := rows_written st1 @ [w]\<rparr>"
    from False Cons.prems(2) row ok
    have rest: "process_records args lib prefixes recs st2 = (st', err)"
      by (cases "PlotAlleleFreqs r (out args) (sample_lists st) prefixes")
         (auto simp: st1_def st2_def Let_def split: if_splits)
    have "append_default (sample_lists st2) = G" using ok by (simp add: st2_def)
    from Cons.IH [OF this rest] obtain n where n: "n \<le> length recs"
      "rows_written st' = rows_written st2 @ map (\<lambda>r. spec_row args lib r G) (take n recs)"
      "err = None \<longrightarrow> n = length recs"
      and G: "append_default (sample_lists st') = G" by auto
    from n ok st1 have "rows_written st'
        = rows_written st @ map (\<lambda>r. spec_row args lib r G) (take (Suc n) (r # recs))"
      by (simp add: st2_def)
    with n(1,3) G show ?thesis by (intro conjI exI [of _ "Suc n"]) simp_all
  qed
qed


lemma read_sample_files_length:
  "read_sample_files world fs = Inr loaded \<Longrightarrow> length loaded = length fs"
  by (induction fs arbitrary: loaded) (auto split: option.splits sum.splits)

lemma length_column_names: "length (column_names s labels) = max 1 (length labels)"
  by (cases labels) (simp_all add: column_names_def)

lemma length_append_default: "length (append_default xs) = max 1 (length xs)"
  by (cases xs) (simp_all add: append_default_def)

lemma length_stat_values:
  "append_default G = G \<Longrightarrow> length (stat_values args lib r G s) = length G"
  by (cases s)
     (auto simp: GetThresh_def GetAFreq_def GetHWEP_def GetHet_def GetEntropy_def GetMean_def
        GetMode_def GetVariance_def GetNumSamples_def Let_def append_default_def split: if_splits)

lemma length_spec_row:
  assumes "\<And>s. length (stat_values args lib r G s) = length (column_names s labels)"
  shows "length (spec_row args lib r G) + 1 = length (spec_header args labels)"
proof -
  have "(\<lambda>s. length (stat_values args lib r G s)) = (\<lambda>s. length (column_names s labels))"
    using assms by (intro ext)
  then show ?thesis
    by (simp add: spec_row_def spec_header_def length_concat comp_def)
qed

lemma stat_values_map:
  "groups \<noteq> [] \<Longrightarrow> stat_values args lib r groups s = map (\<lambda>sl. stat_value args lib r sl s) groups"
  by (cases s)
     (simp_all add: GetThresh_def GetAFreq_def GetHWEP_def GetHet_def GetEntropy_def GetMean_def
        GetMode_def GetVariance_def GetNumSamples_def Let_def append_default_def)

lemma join_Cons: "join sep (x # xs) = x @ concat (map (\<lambda>y. sep @ y) xs)"
  by (induction xs arbitrary: x) simp_all

lemma spec_row_text:
  assumes "groups \<noteq> []"
  shows "concat (spec_row args lib r groups) = join [TAB] (row_fields args lib r groups) @ [NEWLINE]"
proof -
  have "stat_values args lib r groups = (\<lambda>s. map (\<lambda>sl. stat_value args lib r sl s) groups)"
    using assms by (intro ext) (rule stat_values_map)
  then show ?thesis
    by (simp add: spec_row_def row_fields_def coordinates_def join_Cons comp_def)
qed

lemma length_row_fields:
  "length (row_fields args lib r groups) = 3 + length (requested args) * length groups"
  by (simp add: row_fields_def length_concat comp_def sum_list_triv)

lemma length_spec_header:
  "length (spec_header args labels) = 3 + length (requested args) * max 1 (length labels)"
  by (simp add: spec_header_def length_concat comp_def length_column_names sum_list_triv)

lemma read_sample_files_Inr:
  "read_sample_files world fs = Inr loaded
   \<Longrightarrow> loaded = map (\<lambda>sf. Some (map strip (the (readlines world sf)))) fs"
  by (induction fs arbitrary: loaded) (auto split: option.splits sum.splits)

lemma split_on_nonempty: "split_on c s \<noteq> []"
  by (induction s) (auto split: list.splits)

lemma groups_of_loaded:
  assumes "read_sample_files world (sfiles_of args) = Inr loaded"
  shows "append_default loaded = groups_of args world"
proof (cases "truthy (samples args)")
  case True
  then have "sfiles_of args \<noteq> []" by (simp add: sfiles_of_def split_on_nonempty)
  with read_sample_files_Inr [OF assms] True show ?thesis
    by (simp add: groups_of_def append_default_def)
next
  case False
  with read_sample_files_Inr [OF assms] show ?thesis
    by (simp add: groups_of_def append_default_def sfiles_of_def)
qed


text \<open>
  C8 as stated fails: with \<^verbatim>\<open>--precision -1\<close> the first float field raises ValueError,
  and the row of the locus stays in the output with three fields under a header of four
  columns.
\<close>

theorem negative_precision_cuts_row:
  "status (main (args0\<lparr>thresh := True, precision := - 1\<rparr>) (world0 [locus0]) lib0)
     = Raised ValueError
   \<and> header_line (main (args0\<lparr>thresh := True, precision := - 1\<rparr>) (world0 [locus0]) lib0)
     = Some (join [TAB] [''chrom'', ''start'', ''end'', ''thresh''] @ [NEWLINE])
   \<and> map concat (rows (main (args0\<lparr>thresh := True, precision := - 1\<rparr>) (world0 [locus0]) lib0))
     = [join [TAB] [''chr1'', ''100'', ''110'']]"
  by code_simp

lemma nth_concat_blocks:
  assumes "\<forall>x\<in>set xs. length (f x) = n" and "a < length xs" and "i < n"
  shows "concat (map f xs) ! (a * n + i) = f (xs ! a) ! i"
  using assms
proof (induction xs arbitrary: a)
  case Nil
  then show ?case by simp
next
  case (Cons x xs)
  have lx: "length (f x) = n" using Cons.prems(1) by simp
  show ?case
  proof (cases a)
    case 0
    with lx Cons.prems(3) show ?thesis by (simp add: nth_append)
  next
    case (Suc b)
    with Cons.prems have "concat (map f xs) ! (b * n + i) = f (xs ! b) ! i"
      by (intro Cons.IH) simp_all
    with Suc lx show ?thesis by (simp add: nth_append)
  qed
qed

lemma nth_spec_header:
  assumes "a < length (requested args)" and "i < max 1 (length labels)"
  shows "spec_header args labels ! (3 + a * max 1 (length labels) + i)
         = (if labels = [] then stat_name (requested args ! a)
            else stat_name (requested args ! a) @ ''-'' @ labels ! i)"
proof -
  have "concat (map (\<lambda>s. column_names s labels) (requested args)) ! (a * max 1 (length labels) + i)
        = column_names (requested args ! a) labels ! i"
    using assms by (intro nth_concat_blocks) (simp_all add: length_column_names)
  moreover have "spec_header args labels ! (3 + a * max 1 (length labels) + i)
        = concat (map (\<lambda>s. column_names s labels) (requested args)) ! (a * max 1 (length labels) + i)"
    by (simp add: spec_header_def nth_append add.assoc)
  moreover have "column_names (requested args ! a) labels ! i
        = (if labels = [] then stat_name (requested args ! a)
            else stat_name (requested args ! a) @ ''-'' @ labels ! i)"
  proof (cases "labels = []")
    case True
    with assms(2) show ?thesis by (simp add: column_names_def)
  next
    case False
    with assms(2) have "i < length labels" by (cases labels) simp_all
    with False show ?thesis by (simp add: column_names_def)
  qed
  ultimately show ?thesis by simp
qed

lemma nth_row_fields:
  assumes "a < length (requested args)" and "i < length groups"
  shows "row_fields args lib r groups ! (3 + a * length groups + i)
         = stat_value args lib r (groups ! i) (requested args ! a)"
proof -
  have "concat (map (\<lambda>s. map (\<lambda>sl. stat_value args lib r sl s) groups) (requested args))
          ! (a * length groups + i)
        = map (\<lambda>sl. stat_value args lib r sl (requested args ! a)) groups ! i"
    using assms by (intro nth_concat_blocks) simp_all
  moreover have "row_fields args lib r groups ! (3 + a * length groups + i)
        = concat (map (\<lambda>s. map (\<lambda>sl. stat_value args lib r sl s) groups) (requested args))
          ! (a * length groups + i)"
    by (simp add: row_fields_def nth_append add.assoc)
  ultimately show ?thesis using assms(2) by simp
qed

text \<open>
  C8, amended. For every choice of statistics and sample groups, the header line is chrom,
  start, end and then, for each requested statistic in the order thresh, afreq, acount,
  hwep, het, entropy, mean, mode, var, numcalled, its columns: one for each label, with
  the suffix -label, or the bare name without groups. There are as many groups as columns
  of a statistic, the group of a label being the names read from the sample file at the
  same position. Column by column: with G groups, the column at position 3 + a G + i is
  named for the a-th requested statistic and the i-th label, and the field at the same
  position of the row of a locus is that statistic of the i-th group. When the precision
  is one that Python accepts, every row written is the text of chromosome, start and end
  and then, for the same statistics in the same order, the field of each group in the
  order of the groups, joined by tabs and ended by a newline: one field for each column
  of the header. The rows are those of the first loci of the input, all of them when the
  run returns 0.
\<close>

theorem header_and_rows_aligned:
  assumes "header_line (main args world lib) = Some h"
  shows "h = join [TAB] (spec_header args (prefixes_of args)) @ [NEWLINE]
         \<and> length (groups_of args world) = max 1 (length (prefixes_of args))
         \<and> (\<forall>i. i < length (prefixes_of args) \<longrightarrow>
                groups_of args world ! i
                  = Some (map strip (the (readlines world (sfiles_of args ! i)))))
         \<and> (\<forall>r. length (row_fields args lib r (groups_of args world))
                  = length (spec_header args (prefixes_of args)))
         \<and> (\<forall>a i r. a < length (requested args) \<and> i < length (groups_of args world) \<longrightarrow>
                spec_header args (prefixes_of args) ! (3 + a * length (groups_of args world) + i)
                  = (if prefixes_of args = [] then stat_name (requested args ! a)
                     else stat_name (requested args ! a) @ ''-'' @ prefixes_of args ! i)
                \<and> row_fields args lib r (groups_of args world)
                      ! (3 + a * length (groups_of args world) + i)
                  = stat_value args lib r (groups_of args world ! i) (requested args ! a))
         \<and> (0 \<le> precision args \<and> precision args \<le> 2147483647 \<longrightarrow>
              (\<exists>invcf n.
                 LoadSingleReader world (vcf args) (region args \<noteq> None) = Some invcf
                 \<and> map concat (rows (main args world lib))
                     = map (\<lambda>r. join [TAB] (row_fields args lib r (groups_of args world))
                                 @ [NEWLINE])
                           (take n (records_of args invcf))
                 \<and> (status (main args world lib) = Returned 0
                      \<longrightarrow> n = length (records_of args invcf))))"
proof -
  from assms obtain loaded invcf where
    loaded: "read_sample_files world (sfiles_of args) = Inr loaded"
    and len: "\<not> (truthy (samples args) \<and> length (sfiles_of args) \<noteq> length (prefixes_of args))"
    and invcf: "LoadSingleReader world (vcf args) (region args \<noteq> None) = Some invcf"
    and run: "main args world lib =
      (case process_records args lib (prefixes_of args) (records_of args invcf)
              \<lparr>sample_lists = loaded, num_plotted = 0, rows_written = [], plots_saved = []\<rparr> of
         (st, err) \<Rightarrow>
           \<lparr>status = (case err of None \<Rightarrow> Returned 0 | Some e \<Rightarrow> Raised e),
            messages = [],
            header_line = Some (join [TAB] (header_of args (prefixes_of args)) @ [NEWLINE]),
            rows = rows_written st, plots = plots_saved st\<rparr>)"
    by (auto simp: main_def failed_def split: if_splits sum.splits option.splits)
  define G where "G = groups_of args world"
  have G: "append_default loaded = G" unfolding G_def using loaded by (rule groups_of_loaded)
  have Gne: "G \<noteq> []" using G by (auto simp: append_default_def split: if_splits)
  obtain st err where pr:
    "process_records args lib (prefixes_of args) (records_of args invcf)
       \<lparr>sample_lists = loaded, num_plotted = 0, rows_written = [], plots_saved = []\<rparr> = (st, err)"
    by (cases "process_records args lib (prefixes_of args) (records_of args invcf)
                 \<lparr>sample_lists = loaded, num_plotted = 0, rows_written = [], plots_saved = []\<rparr>")
       auto
  have h: "h = join [TAB] (spec_header args (prefixes_of args)) @ [NEWLINE]"
    using assms run pr by (simp add: header_of_spec)
  have "length loaded = length (prefixes_of args)"
    using read_sample_files_length [OF loaded] len
    by (auto simp: sfiles_of_def prefixes_of_def)
  then have lenG: "length G = max 1 (length (prefixes_of args))"
    using length_append_default [of loaded] by (simp only: G)
  have nth: "G ! i = Some (map strip (the (readlines world (sfiles_of args ! i))))"
    if "i < length (prefixes_of args)" for i
  proof -
    from that have t: "truthy (samples args)" by (auto simp: prefixes_of_def split: if_splits)
    with len that have "i < length (sfiles_of args)" by simp
    with t show ?thesis by (simp add: G_def groups_of_def)
  qed
  have cols: "length (row_fields args lib r G) = length (spec_header args (prefixes_of args))" for r
    by (simp add: length_row_fields length_spec_header lenG)
  have align: "spec_header args (prefixes_of args) ! (3 + a * length G + i)
                  = (if prefixes_of args = [] then stat_name (requested args ! a)
                     else stat_name (requested args ! a) @ ''-'' @ prefixes_of args ! i)
               \<and> row_fields args lib r G ! (3 + a * length G + i)
                  = stat_value args lib r (G ! i) (requested args ! a)"
    if "a < length (requested args) \<and> i < length G" for a i r
  proof -
    from that have a: "a < length (requested args)" and i: "i < length G" by simp_all
    from i have i': "i < max 1 (length (prefixes_of args))" by (simp only: lenG)
    from nth_spec_header [OF a i'] nth_row_fields [OF a i, of lib r]
    show ?thesis by (simp only: lenG [symmetric] simp_thms)
  qed
  have rows: "\<exists>invcf n.
                 LoadSingleReader world (vcf args) (region args \<noteq> None) = Some invcf
                 \<and> map concat (rows (main args world lib))
                     = map (\<lambda>r. join [TAB] (row_fields args lib r G) @ [NEWLINE])
                           (take n (records_of args invcf))
                 \<and> (status (main args world lib) = Returned 0
                      \<longrightarrow> n = length (records_of args invcf))"
    if valid: "0 \<le> precision args" "precision args \<le> 2147483647"
  proof -
    from process_records_rows [OF valid _ pr, of G] G
    obtain n where n:
      "rows_written st = map (\<lambda>r. spec_row args lib r G) (take n (records_of args invcf))"
      "err = None \<longrightarrow> n = length (records_of args invcf)"
      by auto
    have "map concat (rows (main args world lib))
          = map (\<lambda>r. join [TAB] (row_fields args lib r G) @ [NEWLINE])
                (take n (records_of args invcf))"
      using run pr n(1) by (simp add: comp_def spec_row_text [OF Gne])
    moreover have "status (main args world lib) = Returned 0 \<longrightarrow> n = length (records_of args invcf)"
      using run pr n(2) by (cases err) simp_all
    ultimately show ?thesis using invcf by blast
  qed
  from h lenG nth cols align rows show ?thesis unfolding G_def by blast
qed

theorem header_and_rows_aligned_witness:
  "header_line (main args_two_groups (world0 [locus0, nocall_locus]) lib0)
     = Some (join [TAB] [''chrom'', ''start'', ''end'', ''thresh-A'', ''thresh-B'',
                         ''afreq-A'', ''afreq-B'', ''numcalled-A'', ''numcalled-B''] @ [NEWLINE])
   \<and> groups_of args_two_groups (world0 [locus0, nocall_locus])
       = [Some [''s1'', ''s2'', ''s4''], Some [''s6'']]
   \<and> map concat (rows (main args_two_groups (world0 [locus0, nocall_locus]) lib0))
       = [join [TAB] [''chr1'', ''100'', ''110'', ''11.0'', ''nan'', ''10.0:0.667,11.0:0.333'',
                      ''.'', ''3'', ''0''] @ [NEWLINE],
          join [TAB] [''chr1'', ''50'', ''54'', ''nan'', ''nan'', ''.'', ''.'', ''0'', ''0'']
            @ [NEWLINE]]
   \<and> row_fields args_two_groups lib0 locus0 (groups_of args_two_groups (world0 [locus0, nocall_locus]))
       = [''chr1'', ''100'', ''110'', ''11.0'', ''nan'', ''10.0:0.667,11.0:0.333'', ''.'', ''3'', ''0'']
   \<and> spec_header args_two_groups (prefixes_of args_two_groups)
       = [''chrom'', ''start'', ''end'', ''thresh-A'', ''thresh-B'',
          ''afreq-A'', ''afreq-B'', ''numcalled-A'', ''numcalled-B'']"
proof -
  have hl: "header_line (main args_two_groups (world0 [locus0, nocall_locus]) lib0)
     = Some (join [TAB] [''chrom'', ''start'', ''end'', ''thresh-A'', ''thresh-B'',
                         ''afreq-A'', ''afreq-B'', ''numcalled-A'', ''numcalled-B''] @ [NEWLINE])"
    by code_simp
  have g: "groups_of args_two_groups (world0 [locus0, nocall_locus])
       = [Some [''s1'', ''s2'', ''s4''], Some [''s6'']]"
    by code_simp
  have rw: "map concat (rows (main args_two_groups (world0 [locus0, nocall_locus]) lib0))
       = [join [TAB] [''chr1'', ''100'', ''110'', ''11.0'', ''nan'', ''10.0:0.667,11.0:0.333'',
                      ''.'', ''3'', ''0''] @ [NEWLINE],
          join [TAB] [''chr1'', ''50'', ''54'', ''nan'', ''nan'', ''.'', ''.'', ''0'', ''0'']
            @ [NEWLINE]]"
    by code_simp
  have rf: "row_fields args_two_groups lib0 locus0 [Some [''s1'', ''s2'', ''s4''], Some [''s6'']]
       = [''chr1'', ''100'', ''110'', ''11.0'', ''nan'', ''10.0:0.667,11.0:0.333'', ''.'', ''3'', ''0'']"
    by code_simp
  have sh: "spec_header args_two_groups (prefixes_of args_two_groups)
       = [''chrom'', ''start'', ''end'', ''thresh-A'', ''thresh-B'',
          ''afreq-A'', ''afreq-B'', ''numcalled-A'', ''numcalled-B'']"
    by code_simp
  from header_and_rows_aligned [OF hl] hl g rw rf sh show ?thesis by simp
qed

subsection \<open>Frequency and count tables\<close>

lemma map_insort_key: "map f (insort_key f x xs) = insort (f x) (map f xs)"
  by (induction xs) simp_all

lemma map_sort_key: "map f (sort_key f xs) = sort (map f xs)"
  by (induction xs) (simp_all add: map_insort_key)

lemma sorted_lookup:
  assumes "distinct (dict_keys d)"
  shows "map (\<lambda>a. (a, dict_get d a dflt)) (sort (dict_keys d)) = sort_key fst d"
proof -
  have "map (\<lambda>p. (fst p, dict_get d (fst p) dflt)) (sort_key fst d) = map (\<lambda>p. p) (sort_key fst d)"
  proof (rule map_cong [OF refl])
    fix p assume "p \<in> set (sort_key fst d)"
    then have "(fst p, snd p) \<in> set d" by simp
    with assms have "map_of d (fst p) = Some (snd p)"
      unfolding dict_keys_def by (rule map_of_is_SomeI)
    then show "(fst p, dict_get d (fst p) dflt) = p" by (simp add: dict_get_def)
  qed
  moreover have "map (\<lambda>p. (fst p, dict_get d (fst p) dflt)) (sort_key fst d)
                 = map (\<lambda>a. (a, dict_get d a dflt)) (map fst (sort_key fst d))"
    by simp
  ultimately show ?thesis by (simp add: map_sort_key dict_keys_def)
qed

lemma count_table_spec:
  assumes "distinct (dict_keys d)"
  shows "count_table str d = spec_table str str_nat d"
proof -
  have "map (\<lambda>a. str a @ '':'' @ str_nat (dict_get d a 0)) (sort (dict_keys d))
        = map (\<lambda>(a, v). str a @ '':'' @ str_nat v) (map (\<lambda>a. (a, dict_get d a 0)) (sort (dict_keys d)))"
    by simp
  then show ?thesis
    by (simp only: count_table_def spec_table_def sorted_lookup [OF assms])
       (simp add: dict_keys_def)
qed

lemma freq_table_spec:
  assumes "distinct (dict_keys d)"
  shows "freq_table str d = spec_table str (percent_f 3) d"
proof -
  have "map (\<lambda>a. str a @ '':'' @ percent_f 3 (dict_get d a (Finite 0))) (sort (dict_keys d))
        = map (\<lambda>(a, v). str a @ '':'' @ percent_f 3 v)
              (map (\<lambda>a. (a, dict_get d a (Finite 0))) (sort (dict_keys d)))"
    by simp
  then show ?thesis
    by (simp only: freq_table_def spec_table_def sorted_lookup [OF assms])
       (simp add: dict_keys_def)
qed

lemma keys_tally: "set (dict_keys (tally ks)) = set ks"
  by (induction ks rule: tally.induct) (auto simp: dict_keys_def)

lemma distinct_tally: "distinct (dict_keys (tally ks))"
proof (induction ks rule: tally.induct)
  case 1
  then show ?case by (simp add: dict_keys_def)
next
  case (2 k ks)
  have "k \<notin> set (dict_keys (tally (filter (\<lambda>x. x \<noteq> k) ks)))"
    by (simp add: keys_tally)
  with 2 show ?case by (simp add: dict_keys_def)
qed

lemma keys_frequencies: "dict_keys (frequencies d) = dict_keys d"
  by (simp add: frequencies_def dict_keys_def comp_def case_prod_unfold)

lemma wf_spec_counts: "wf_adict (spec_GetAlleleCounts calls uselength sl)"
  by (simp add: spec_GetAlleleCounts_def Let_def distinct_tally)

lemma wf_spec_freqs: "wf_adict (spec_GetAlleleFreqs calls uselength sl)"
  using wf_spec_counts [of calls uselength sl]
  by (cases "spec_GetAlleleCounts calls uselength sl")
     (simp_all add: spec_GetAlleleFreqs_def keys_frequencies)

lemma count_list_filter_other:
  "a \<noteq> k \<Longrightarrow> count_list (filter (\<lambda>x. x \<noteq> k) ks) a = count_list ks a"
  by (induction ks) auto

lemma map_of_tally:
  "map_of (tally ks) a = (if a \<in> set ks then Some (count_list ks a) else None)"
proof (induction ks rule: tally.induct)
  case 1
  then show ?case by simp
next
  case (2 k ks)
  have "length (filter (\<lambda>x. x = k) ks) = count_list ks k"
  proof -
    have "(\<lambda>x. x = k) = ((=) k)" by (auto intro: ext)
    then show ?thesis by (simp add: count_list_eq_length_filter)
  qed
  with 2 show ?case by (auto simp: count_list_filter_other)
qed

lemma tally_lists_occurring:
  "(a \<in> set (dict_keys (tally ks))) = (0 < count_list ks a)"
  using count_list_0_iff [of ks a] by (simp add: keys_tally) arith

lemma dict_get_tally: "dict_get (tally ks) a 0 = count_list ks a"
  by (simp add: dict_get_def map_of_tally count_list_0_iff)


lemma count_table_tally: "count_table str (tally ks) = spec_table str str_nat (tally ks)"
  by (rule count_table_spec) (rule distinct_tally)

lemma freq_table_tally:
  "freq_table str (frequencies (tally ks)) = spec_table str (percent_f 3) (frequencies (tally ks))"
  by (rule freq_table_spec) (simp add: keys_frequencies distinct_tally)

text \<open>
  C4, amended. For every record whose distributions are dictionaries and for every sample
  group, the frequency table and the count table of GetAFreq are the pairs of the group's
  distribution sorted by allele, each written allele:value, joined by commas, or the
  marker \<^verbatim>\<open>.\<close> for a distribution without alleles. Counts are written as integers,
  frequencies with three digits after the point: GetAFreq takes no precision, and the
  fields main writes for afreq and acount are the same for every \<^verbatim>\<open>--precision\<close>. On
  the record as the design describes it, the distribution of a group is the tally of the
  alleles of its called genotypes: an allele is listed exactly when it occurs at least
  once, with the number of its occurrences, so alleles that do not occur are left out.
\<close>

theorem GetAFreq_tables:
  assumes "\<forall>sl. wf_adict (GetAlleleFreqs trrecord uselength sl)"
    and "\<forall>sl. wf_adict (GetAlleleCounts trrecord uselength sl)"
  shows "snd (GetAFreq lib trrecord samplelists False uselength)
           = map (\<lambda>sl. case GetAlleleFreqs trrecord uselength sl of
                          ByLength d \<Rightarrow> spec_table (str_float lib) (percent_f 3) d
                        | BySeq d \<Rightarrow> spec_table (\<lambda>a. a) (percent_f 3) d)
                 (append_default samplelists)
         \<and> snd (GetAFreq lib trrecord samplelists True uselength)
             = map (\<lambda>sl. case GetAlleleCounts trrecord uselength sl of
                            ByLength d \<Rightarrow> spec_table (str_float lib) str_nat d
                          | BySeq d \<Rightarrow> spec_table (\<lambda>a. a) str_nat d)
                   (append_default samplelists)
         \<and> stat_values (args\<lparr>precision := p\<rparr>) lib trrecord samplelists AFreq
             = stat_values args lib trrecord samplelists AFreq
         \<and> stat_values (args\<lparr>precision := p\<rparr>) lib trrecord samplelists ACount
             = stat_values args lib trrecord samplelists ACount
         \<and> snd (GetAFreq lib (spec_TRRecord chrom pos ref mot calls) samplelists True uselength)
             = map (\<lambda>sl. if uselength
                          then spec_table (str_float lib) str_nat
                                 (tally (map snd (concat (called_genotypes calls sl))))
                          else spec_table (\<lambda>a. a) str_nat
                                 (tally (map fst (concat (called_genotypes calls sl)))))
                   (append_default samplelists)
         \<and> snd (GetAFreq lib (spec_TRRecord chrom pos ref mot calls) samplelists False uselength)
             = map (\<lambda>sl. if uselength
                          then spec_table (str_float lib) (percent_f 3)
                                 (frequencies (tally (map snd (concat (called_genotypes calls sl)))))
                          else spec_table (\<lambda>a. a) (percent_f 3)
                                 (frequencies (tally (map fst (concat (called_genotypes calls sl))))))
                   (append_default samplelists)
         \<and> (a \<in> set (dict_keys (tally ks))) = (0 < count_list ks a)
         \<and> dict_get (tally ks) a 0 = count_list ks a
         \<and> dict_keys (frequencies (tally ks)) = dict_keys (tally ks)"
proof -
  have f: "(case GetAlleleFreqs trrecord uselength sl of
              ByLength d \<Rightarrow> freq_table (str_float lib) d | BySeq d \<Rightarrow> freq_table (\<lambda>a. a) d)
           = (case GetAlleleFreqs trrecord uselength sl of
                ByLength d \<Rightarrow> spec_table (str_float lib) (percent_f 3) d
              | BySeq d \<Rightarrow> spec_table (\<lambda>a. a) (percent_f 3) d)" for sl
    using assms(1) [rule_format, of sl]
    by (cases "GetAlleleFreqs trrecord uselength sl") (simp_all add: freq_table_spec)
  have c: "(case GetAlleleCounts trrecord uselength sl of
              ByLength d \<Rightarrow> count_table (str_float lib) d | BySeq d \<Rightarrow> count_table (\<lambda>a. a) d)
           = (case GetAlleleCounts trrecord uselength sl of
                ByLength d \<Rightarrow> spec_table (str_float lib) str_nat d
              | BySeq d \<Rightarrow> spec_table (\<lambda>a. a) str_nat d)" for sl
    using assms(2) [rule_format, of sl]
    by (cases "GetAlleleCounts trrecord uselength sl") (simp_all add: count_table_spec)
  have general:
    "snd (GetAFreq lib trrecord samplelists False uselength)
       = map (\<lambda>sl. case GetAlleleFreqs trrecord uselength sl of
                      ByLength d \<Rightarrow> spec_table (str_float lib) (percent_f 3) d
                    | BySeq d \<Rightarrow> spec_table (\<lambda>a. a) (percent_f 3) d)
             (append_default samplelists)"
    "snd (GetAFreq lib trrecord samplelists True uselength)
       = map (\<lambda>sl. case GetAlleleCounts trrecord uselength sl of
                      ByLength d \<Rightarrow> spec_table (str_float lib) str_nat d
                    | BySeq d \<Rightarrow> spec_table (\<lambda>a. a) str_nat d)
             (append_default samplelists)"
    "stat_values (args\<lparr>precision := p\<rparr>) lib trrecord samplelists AFreq
       = stat_values args lib trrecord samplelists AFreq"
    "stat_values (args\<lparr>precision := p\<rparr>) lib trrecord samplelists ACount
       = stat_values args lib trrecord samplelists ACount"
    by (simp_all add: GetAFreq_def Let_def f c)
  have counts:
    "snd (GetAFreq lib (spec_TRRecord chrom pos ref mot calls) samplelists True uselength)
       = map (\<lambda>sl. if uselength
                    then spec_table (str_float lib) str_nat
                           (tally (map snd (concat (called_genotypes calls sl))))
                    else spec_table (\<lambda>a. a) str_nat
                           (tally (map fst (concat (called_genotypes calls sl)))))
             (append_default samplelists)"
    by (simp add: GetAFreq_def Let_def spec_TRRecord_def spec_GetAlleleCounts_def
        count_table_tally)
  have freqs:
    "snd (GetAFreq lib (spec_TRRecord chrom pos ref mot calls) samplelists False uselength)
       = map (\<lambda>sl. if uselength
                    then spec_table (str_float lib) (percent_f 3)
                           (frequencies (tally (map snd (concat (called_genotypes calls sl)))))
                    else spec_table (\<lambda>a. a) (percent_f 3)
                           (frequencies (tally (map fst (concat (called_genotypes calls sl))))))
             (append_default samplelists)"
    by (simp add: GetAFreq_def Let_def spec_TRRecord_def spec_GetAlleleFreqs_def
        spec_GetAlleleCounts_def freq_table_tally)
  from general counts freqs tally_lists_occurring [of a ks] dict_get_tally [of ks a]
       keys_frequencies [of "tally ks"]
  show ?thesis by (intro conjI)
qed

theorem GetAFreq_tables_witness:
  "snd (GetAFreq lib0 locus0 [None, Some [''s6'']] False True)
     = [''10.0:0.600,11.0:0.300,12.0:0.100'', ''.'']
   \<and> snd (GetAFreq lib0 locus0 [None, Some [''s6'']] True True) = [''10.0:6,11.0:3,12.0:1'', ''.'']
   \<and> snd (GetAFreq lib0 locus0 [] True False)
     = [''AAAAAAAAAA:6,AAAAAAAAAAA:3,AAAAAAAAAAAA:1'']
   \<and> count_list (map snd (concat (called_genotypes calls0 None))) 13 = 0
   \<and> 13 \<notin> set (dict_keys (tally (map snd (concat (called_genotypes calls0 None)))))
   \<and> 12 \<in> set (dict_keys (tally (map snd (concat (called_genotypes calls0 None)))))"
proof -
  have wf: "\<forall>sl. wf_adict (GetAlleleFreqs locus0 b sl)" "\<forall>sl. wf_adict (GetAlleleCounts locus0 b sl)" for b
    by (simp_all add: locus0_def spec_TRRecord_def wf_spec_counts wf_spec_freqs)
  have e1: "map (\<lambda>sl. case GetAlleleFreqs locus0 True sl of
                          ByLength d \<Rightarrow> spec_table (str_float lib0) (percent_f 3) d
                        | BySeq d \<Rightarrow> spec_table (\<lambda>a. a) (percent_f 3) d)
                 (append_default [None, Some [''s6'']])
            = [''10.0:0.600,11.0:0.300,12.0:0.100'', ''.'']"
    by code_simp
  have e2: "map (\<lambda>sl. case GetAlleleCounts locus0 True sl of
                          ByLength d \<Rightarrow> spec_table (str_float lib0) str_nat d
                        | BySeq d \<Rightarrow> spec_table (\<lambda>a. a) str_nat d)
                 (append_default [None, Some [''s6'']])
            = [''10.0:6,11.0:3,12.0:1'', ''.'']"
    by code_simp
  have e3: "map (\<lambda>sl. case GetAlleleCounts locus0 False sl of
                            ByLength d \<Rightarrow> spec_table (str_float lib0) str_nat d
                          | BySeq d \<Rightarrow> spec_table (\<lambda>a. a) str_nat d)
                   (append_default [])
            = [''AAAAAAAAAA:6,AAAAAAAAAAA:3,AAAAAAAAAAAA:1'']"
    by code_simp
  have c13: "count_list (map snd (concat (called_genotypes calls0 None))) 13 = 0"
    by code_simp
  have c12: "count_list (map snd (concat (called_genotypes calls0 None))) 12 = 1"
    by code_simp
  note t1 = GetAFreq_tables [where trrecord = locus0 and uselength = True and lib = lib0
                and samplelists = "[None, Some [''s6'']]"
                and ks = "map snd (concat (called_genotypes calls0 None))" and a = 13,
              OF wf(1) wf(2)]
  note t2 = GetAFreq_tables [where trrecord = locus0 and uselength = False and lib = lib0
                and samplelists = "[]"
                and ks = "map snd (concat (called_genotypes calls0 None))" and a = 12,
              OF wf(1) wf(2)]
  from t1 t2 e1 e2 e3 c13 c12 show ?thesis by simp
qed

text \<open>
  C4 as stated fails: with \<^verbatim>\<open>--precision 2\<close> the frequencies of the scenario are written
  with three digits after the point, not with the two that the configured precision asks
  for.
\<close>

theorem afreq_ignores_precision:
  "rows (main (args0\<lparr>afreq := True, precision := 2\<rparr>) (world0 [locus0]) lib0)
     = [[coordinates locus0, TAB # ''10.0:0.600,11.0:0.300,12.0:0.100'', [NEWLINE]]]
   \<and> spec_table (str_float lib0) (percent_f 2)
         [(10, Finite (6 / 10)), (11, Finite (3 / 10)), (12, Finite (1 / 10))]
       = ''10.0:0.60,11.0:0.30,12.0:0.10''"
  by code_simp

subsection \<open>Significant digits\<close>

lemma exp_up_bounds: "1 \<le> a \<Longrightarrow> 10 ^ exp_up a \<le> a \<and> a < 10 ^ Suc (exp_up a)"
proof (induction a rule: exp_up.induct)
  case (1 a)
  show ?case
  proof (cases "a < 10")
    case True
    with 1 show ?thesis by (simp add: exp_up.simps)
  next
    case False
    then have "1 \<le> a / 10" by simp
    with 1 False have "10 ^ exp_up (a / 10) \<le> a / 10 \<and> a / 10 < 10 ^ Suc (exp_up (a / 10))"
      by blast
    with False show ?thesis by (simp add: exp_up.simps [of a])
  qed
qed

lemma exp_down_bounds:
  "0 < a \<Longrightarrow> a < 1 \<Longrightarrow> 1 \<le> a * 10 ^ exp_down a \<and> a * 10 ^ exp_down a < 10"
proof (induction a rule: exp_down.induct)
  case (1 a)
  show ?case
  proof (cases "a * 10 < 1")
    case True
    with 1 have "1 \<le> a * 10 * 10 ^ exp_down (a * 10) \<and> a * 10 * 10 ^ exp_down (a * 10) < 10"
      by simp
    with 1 show ?thesis by (simp add: exp_down.simps [of a] mult.assoc)
  next
    case False
    then have "exp_down (a * 10) = 0" by (simp add: exp_down.simps [of "a * 10"])
    with 1 False show ?thesis by (simp add: exp_down.simps [of a])
  qed
qed

lemma exp_down_pos: "0 < a \<Longrightarrow> a < 1 \<Longrightarrow> 0 < exp_down a"
  by (simp add: exp_down.simps [of a])


lemma scaled_range:
  assumes "0 < a" and "0 < p"
  shows "10 ^ (p - 1) \<le> scale10 a (int p - 1 - decimal_exponent a)
         \<and> scale10 a (int p - 1 - decimal_exponent a) < 10 ^ p"
proof (cases "1 \<le> a")
  case True
  define n where "n = exp_up a"
  from exp_up_bounds [OF True] have lo: "10 ^ n \<le> a" and hi: "a < 10 ^ Suc n"
    by (simp_all add: n_def)
  show ?thesis
  proof (cases "n \<le> p - 1")
    case le: True
    define k where "k = p - 1 - n"
    from le assms(2) have p: "p - 1 = n + k" "p = Suc n + k" by (simp_all add: k_def)
    have sc: "scale10 a (int p - 1 - decimal_exponent a) = a * 10 ^ k"
      using True le assms(2) by (simp add: decimal_exponent_def scale10_def n_def k_def nat_diff_distrib' of_nat_diff)
    have "(10::rat) ^ n * 10 ^ k \<le> a * 10 ^ k" using lo by simp
    then have l: "(10::rat) ^ (p - 1) \<le> a * 10 ^ k" by (simp only: p(1) power_add)
    have "a * 10 ^ k < (10::rat) ^ Suc n * 10 ^ k" using hi by simp
    then have h: "a * 10 ^ k < (10::rat) ^ p" by (simp only: p(2) power_add)
    from l h show ?thesis by (simp only: sc simp_thms)
  next
    case gt: False
    define m where "m = n - (p - 1)"
    from gt assms(2) have n: "n = (p - 1) + m" "Suc n = p + m" "0 < m" by (simp_all add: m_def)
    have "int p - 1 - int n < 0" using gt assms(2) by linarith
    moreover have "nat (- (int p - 1 - int n)) = m" using gt assms(2) by (simp add: m_def)
    ultimately have sc: "scale10 a (int p - 1 - decimal_exponent a) = a / 10 ^ m"
      using True by (simp add: decimal_exponent_def scale10_def n_def)
    have "(10::rat) ^ (p - 1) * 10 ^ m \<le> a" using lo unfolding n(1) power_add .
    then have l: "(10::rat) ^ (p - 1) \<le> a / 10 ^ m" by (simp add: pos_le_divide_eq)
    have "a < (10::rat) ^ p * 10 ^ m" using hi unfolding n(2) power_add .
    then have h: "a / 10 ^ m < (10::rat) ^ p" by (simp add: pos_divide_less_eq)
    from l h show ?thesis by (simp only: sc simp_thms)
  qed
next
  case False
  with assms have a: "0 < a" "a < 1" by simp_all
  define m where "m = exp_down a"
  from exp_down_bounds [OF a] have lo: "1 \<le> a * 10 ^ m" and hi: "a * 10 ^ m < 10"
    by (simp_all add: m_def)
  have "int p - 1 - decimal_exponent a = int ((p - 1) + m)"
    using False assms(2) by (simp add: decimal_exponent_def m_def of_nat_diff)
  then have "scale10 a (int p - 1 - decimal_exponent a) = a * 10 ^ ((p - 1) + m)"
    by (simp only: scale10_def of_nat_0_le_iff if_True nat_int)
  then have sc: "scale10 a (int p - 1 - decimal_exponent a) = (a * 10 ^ m) * 10 ^ (p - 1)"
    by (simp only: power_add mult_ac)
  have l: "1 * (10::rat) ^ (p - 1) \<le> (a * 10 ^ m) * 10 ^ (p - 1)"
    using lo by (intro mult_right_mono) simp_all
  have "(a * 10 ^ m) * 10 ^ (p - 1) < 10 * (10::rat) ^ (p - 1)"
    using hi by (intro mult_strict_right_mono) simp_all
  also have "\<dots> = 10 ^ p" using assms(2) by (cases p) simp_all
  finally show ?thesis using l unfolding sc by simp
qed

lemma round_half_even_bounds:
  "\<lfloor>q\<rfloor> \<le> round_half_even q \<and> round_half_even q \<le> \<lfloor>q\<rfloor> + 1"
  by (simp add: round_half_even_def Let_def)

lemma rounded_range:
  assumes "0 < a" and "0 < p"
  shows "10 ^ (p - 1) \<le> nat (round_half_even (scale10 a (int p - 1 - decimal_exponent a)))
         \<and> nat (round_half_even (scale10 a (int p - 1 - decimal_exponent a))) \<le> 10 ^ p"
proof -
  define q where "q = scale10 a (int p - 1 - decimal_exponent a)"
  from scaled_range [OF assms] have "of_int (10 ^ (p - 1)) \<le> q" and "q < of_int (10 ^ p)"
    by (simp_all add: q_def)
  then have "10 ^ (p - 1) \<le> \<lfloor>q\<rfloor>" and "\<lfloor>q\<rfloor> < 10 ^ p"
    by (simp_all only: le_floor_iff floor_less_iff)
  with round_half_even_bounds [of q]
  have "10 ^ (p - 1) \<le> round_half_even q" and "round_half_even q \<le> 10 ^ p" by linarith+
  then have "int (10 ^ (p - 1)) \<le> round_half_even q" and "round_half_even q \<le> int (10 ^ p)"
    by simp_all
  then show ?thesis unfolding q_def [symmetric] by linarith
qed


lemma length_str_nat: "0 < p \<Longrightarrow> n < 10 ^ p \<Longrightarrow> length (str_nat n) \<le> p"
proof (induction p arbitrary: n)
  case 0
  then show ?case by simp
next
  case (Suc p)
  show ?case
  proof (cases "n < 10")
    case True
    then show ?thesis by (simp add: str_nat.simps [of n])
  next
    case False
    with Suc.prems have "0 < p" by (cases p) simp_all
    moreover from Suc.prems have "n div 10 < 10 ^ p" by (simp add: div_less_iff_less_mult mult.commute)
    ultimately have "length (str_nat (n div 10)) \<le> p" by (rule Suc.IH)
    with False show ?thesis by (simp add: str_nat.simps [of n])
  qed
qed

lemma str_nat_power10: "str_nat (10 ^ p) = CHR ''1'' # replicate p CHR ''0''"
proof (induction p)
  case 0
  then show ?case by (simp add: str_nat.simps digit_char_def)
next
  case (Suc p)
  have "\<not> (10::nat) ^ Suc p < 10" by simp
  then have "str_nat (10 ^ Suc p) = str_nat (10 ^ Suc p div 10) @ [digit_char (10 ^ Suc p mod 10)]"
    by (simp only: str_nat.simps [of "10 ^ Suc p"] if_False)
  also have "\<dots> = str_nat (10 ^ p) @ [CHR ''0'']" by (simp add: digit_char_def)
  finally show ?case using Suc by (simp add: replicate_append_same)
qed

lemma strip_zeros_power10: "strip_zeros (CHR ''1'' # replicate p CHR ''0'') = ''1''"
proof -
  have "dropWhile (\<lambda>c. c = CHR ''0'') (replicate p CHR ''0'' @ ''1'')
        = dropWhile (\<lambda>c. c = CHR ''0'') ''1''"
    by (rule dropWhile_append2) simp
  then show ?thesis by (simp add: strip_zeros_def)
qed

lemma length_strip_zeros: "length (strip_zeros s) \<le> length s"
  by (simp add: strip_zeros_def length_dropWhile_le [of _ "rev s", simplified])

lemma strip_zeros_nonempty: "\<exists>c\<in>set s. c \<noteq> CHR ''0'' \<Longrightarrow> strip_zeros s \<noteq> []"
  by (auto simp: strip_zeros_def dropWhile_eq_Nil_conv)

lemma digit_char_nonzero: "0 < d \<Longrightarrow> d < 10 \<Longrightarrow> digit_char d \<noteq> CHR ''0''"
proof -
  assume "0 < d" and "d < 10"
  then have "d \<in> {1, 2, 3, 4, 5, 6, 7, 8, 9}" by auto
  then show ?thesis by (auto simp: digit_char_def)
qed

lemma str_nat_has_nonzero: "0 < n \<Longrightarrow> \<exists>c\<in>set (str_nat n). c \<noteq> CHR ''0''"
proof (induction n rule: str_nat.induct)
  case (1 n)
  show ?case
  proof (cases "n < 10")
    case True
    with 1(2) show ?thesis by (simp add: str_nat.simps [of n] digit_char_nonzero)
  next
    case False
    then have "0 < n div 10" by (simp add: div_greater_zero_iff)
    with 1(1) False obtain c where "c \<in> set (str_nat (n div 10))" "c \<noteq> CHR ''0''" by blast
    with False show ?thesis by (auto simp: str_nat.simps [of n])
  qed
qed

lemma sig_digits_length:
  assumes "0 < p" and "0 \<le> a"
  shows "fst (sig_digits p a) \<noteq> [] \<and> length (fst (sig_digits p a)) \<le> p"
proof (cases "a = 0")
  case True
  with assms(1) show ?thesis by (simp add: sig_digits_def)
next
  case False
  with assms(2) have pos: "0 < a" by simp
  define d where "d = nat (round_half_even (scale10 a (int p - 1 - decimal_exponent a)))"
  from rounded_range [OF pos assms(1)] have lo: "10 ^ (p - 1) \<le> d" and hi: "d \<le> 10 ^ p"
    by (simp_all add: d_def)
  have ds: "fst (sig_digits p a) = strip_zeros (str_nat d)"
    using False by (simp add: sig_digits_def Let_def d_def)
  from lo have "0 < d" by (rule less_le_trans [rotated]) simp
  then have ne: "strip_zeros (str_nat d) \<noteq> []"
    by (intro strip_zeros_nonempty str_nat_has_nonzero)
  have "length (strip_zeros (str_nat d)) \<le> p"
  proof (cases "d = 10 ^ p")
    case True
    with assms(1) show ?thesis by (simp add: str_nat_power10 strip_zeros_power10)
  next
    case False
    with hi have "d < 10 ^ p" by simp
    with assms(1) have "length (str_nat d) \<le> p" by (rule length_str_nat)
    with length_strip_zeros [of "str_nat d"] show ?thesis by simp
  qed
  with ne ds show ?thesis by simp
qed





lemma foldl_digits:
  "foldl (\<lambda>n c. 10 * n + digit_of c) a s = a * 10 ^ length s + nat_of_digits s"
proof (induction s arbitrary: a)
  case Nil
  then show ?case by (simp add: nat_of_digits_def)
next
  case (Cons c s)
  have "foldl (\<lambda>n c. 10 * n + digit_of c) a (c # s)
        = (10 * a + digit_of c) * 10 ^ length s + nat_of_digits s"
    by (simp add: Cons.IH)
  moreover have "nat_of_digits (c # s) = digit_of c * 10 ^ length s + nat_of_digits s"
    by (simp add: nat_of_digits_def Cons.IH [of "digit_of c"])
  ultimately show ?case by (simp add: algebra_simps)
qed

lemma nat_of_digits_append:
  "nat_of_digits (xs @ ys) = nat_of_digits xs * 10 ^ length ys + nat_of_digits ys"
  by (simp add: nat_of_digits_def foldl_digits [of "foldl _ 0 xs"])

lemma nat_of_digits_Nil [simp]: "nat_of_digits [] = 0"
  by (simp add: nat_of_digits_def)

lemma nat_of_digits_single: "nat_of_digits [c] = digit_of c"
  by (simp add: nat_of_digits_def)

lemma nat_of_digits_Cons:
  "nat_of_digits (c # s) = digit_of c * 10 ^ length s + nat_of_digits s"
  using nat_of_digits_append [of "[c]" s] by (simp add: nat_of_digits_single)

lemma nat_of_digits_zeros [simp]: "nat_of_digits (replicate k CHR ''0'') = 0"
  by (induction k) (simp_all add: nat_of_digits_Cons digit_of_def)














lemma powi_10_diff: "(10::rat) powi (a - b) = 10 powi a / 10 powi b"
  by (rule power_int_diff) simp



























end
